theory Spec2Isabelle
  imports Main
begin

section \<open>The player-count history store (index.js, lines 28 and 38-69)\<close>

text \<open>
  \<^verbatim>\<open>playerHistory\<close> is a JavaScript \<^verbatim>\<open>Map\<close> from a channel id to an array of
  \<^verbatim>\<open>{timestamp, count}\<close> objects. Every key owns its own array (the arrays are created
  by \<^verbatim>\<open>initializePlayerHistory\<close> or by the \<^verbatim>\<open>|| []\<close> of \<^verbatim>\<open>updatePlayerHistory\<close>, and no
  array is ever stored under two keys), so in-place mutation of the array is modelled by
  storing the updated list back under the key. Timestamps are the integer milliseconds of
  \<^verbatim>\<open>Date.now()\<close>; the clock reading is an argument of the model.
\<close>

record sample =
  timestamp :: int
  count :: int

type_synonym history = "sample list"

type_synonym history_map = "string \<rightharpoonup> history"

text \<open>\<^verbatim>\<open>playerHistory.get(serverId) || []\<close>, as both readers of the store write it.\<close>

definition snapshot :: "history_map \<Rightarrow> string \<Rightarrow> history" where
  "snapshot playerHistory serverId =
     (case playerHistory serverId of None \<Rightarrow> [] | Some history \<Rightarrow> history)"

definition initializePlayerHistory :: "string \<Rightarrow> history_map \<Rightarrow> history_map" where
  "initializePlayerHistory serverId playerHistory =
     (if playerHistory serverId = None then playerHistory(serverId \<mapsto> []) else playerHistory)"

text \<open>
  \<^verbatim>\<open>updatePlayerHistory(serverId, playerCount, maxHistory = 24)\<close>. The third argument is
  optional in the source (\<^verbatim>\<open>undefined\<close> selects the default 24), hence \<open>int option\<close>.
  \<open>currentTime\<close> is what \<^verbatim>\<open>Date.now()\<close> returns inside the call. \<^verbatim>\<open>history.shift()\<close>
  is \<open>tl\<close>; it runs at most once per call.
\<close>

definition maxHistoryOrDefault :: "int option \<Rightarrow> int" where
  "maxHistoryOrDefault maxHistoryArg = (case maxHistoryArg of None \<Rightarrow> 24 | Some n \<Rightarrow> n)"

definition updatePlayerHistory ::
  "string \<Rightarrow> int \<Rightarrow> int option \<Rightarrow> int \<Rightarrow> history_map \<Rightarrow> history_map" where
  "updatePlayerHistory serverId playerCount maxHistoryArg currentTime playerHistory =
     (let maxHistory = maxHistoryOrDefault maxHistoryArg;
          history = snapshot playerHistory serverId
      in if length history = 0 \<or>
            currentTime - timestamp (history ! (length history - 1)) \<ge> 3600000
         then
           (let pushed = history @ [\<lparr>timestamp = currentTime, count = playerCount\<rparr>];
                kept = (if int (length pushed) > maxHistory then tl pushed else pushed)
            in playerHistory(serverId \<mapsto> kept))
         else
           playerHistory(serverId \<mapsto>
             history[length history - 1 :=
               (history ! (length history - 1))\<lparr>count := playerCount\<rparr>]))"

text \<open>A sequence of record calls on one channel id with one capacity argument; each call
  is the pair of the clock reading and the observed player count.\<close>

fun recordAll ::
  "string \<Rightarrow> int option \<Rightarrow> (int \<times> int) list \<Rightarrow> history_map \<Rightarrow> history_map" where
  "recordAll serverId maxHistoryArg [] playerHistory = playerHistory"
| "recordAll serverId maxHistoryArg ((currentTime, playerCount) # calls) playerHistory =
     recordAll serverId maxHistoryArg calls
       (updatePlayerHistory serverId playerCount maxHistoryArg currentTime playerHistory)"

text \<open>The sample a call appends.\<close>

definition sampleOf :: "int \<times> int \<Rightarrow> sample" where
  "sampleOf call = \<lparr>timestamp = fst call, count = snd call\<rparr>"

text \<open>Clock readings each at least one sampling interval after the previous one;
  the first argument is the timestamp of the newest stored sample, if there is one.\<close>

fun spacedFrom :: "int option \<Rightarrow> int list \<Rightarrow> bool" where
  "spacedFrom newest [] = True"
| "spacedFrom None (t # ts) = spacedFrom (Some t) ts"
| "spacedFrom (Some l) (t # ts) = (t - l \<ge> 3600000 \<and> spacedFrom (Some t) ts)"

definition newestTimestamp :: "history \<Rightarrow> int option" where
  "newestTimestamp history = (if history = [] then None else Some (timestamp (last history)))"

text \<open>The spacing invariant of a series: consecutive samples at least one interval apart.\<close>

fun spaced :: "history \<Rightarrow> bool" where
  "spaced [] = True"
| "spaced [a] = True"
| "spaced (a # b # rest) = (timestamp b - timestamp a \<ge> 3600000 \<and> spaced (b # rest))"

text \<open>Arbitrary use of the store: the two writers, on any key, in any order, with any
  clock readings (the clock is not assumed to be monotonic).\<close>

datatype history_call =
  InitCall string
| RecordCall string int "int option" int

fun applyCall :: "history_call \<Rightarrow> history_map \<Rightarrow> history_map" where
  "applyCall (InitCall serverId) playerHistory = initializePlayerHistory serverId playerHistory"
| "applyCall (RecordCall serverId playerCount maxHistoryArg currentTime) playerHistory =
     updatePlayerHistory serverId playerCount maxHistoryArg currentTime playerHistory"

fun applyCalls :: "history_call list \<Rightarrow> history_map \<Rightarrow> history_map" where
  "applyCalls [] playerHistory = playerHistory"
| "applyCalls (c # cs) playerHistory = applyCalls cs (applyCall c playerHistory)"

section \<open>Values exchanged with the collaborators\<close>

text \<open>
  The status query library, the chat platform client, the canvas and chart libraries and
  \<^verbatim>\<open>config.json\<close> are not part of the program. What they return on a call is an
  input of the model; a call that throws (or a promise that rejects) is the \<open>Inl\<close> of
  a sum. Thrown values are taken to be \<^verbatim>\<open>Error\<close> objects, which carry a message string.
\<close>

datatype js_error = Error (message: string)

text \<open>The fields of the resolved value of \<^verbatim>\<open>util.status\<close> that the program reads:
  \<^verbatim>\<open>players.online\<close>, \<^verbatim>\<open>players.max\<close>, \<^verbatim>\<open>version.name\<close>, \<^verbatim>\<open>motd.clean\<close>,
  \<^verbatim>\<open>roundTripLatency\<close>.\<close>

record status_response =
  players_online :: int
  players_max :: int
  version_name :: string
  motd_clean :: string
  roundTripLatency :: int

text \<open>The object \<^verbatim>\<open>checkServerStatus\<close> returns: \<^verbatim>\<open>{online: true, players, maxPlayers,
  version, description, ping}\<close> or \<^verbatim>\<open>{online: false, error}\<close>.\<close>

datatype probe_result =
  Online (players: int) (maxPlayers: int) (version: string) (description: string) (ping: int)
| Offline (error: string)

fun online :: "probe_result \<Rightarrow> bool" where
  "online (Online p m v d l) = True"
| "online (Offline e) = False"

text \<open>One entry of \<^verbatim>\<open>config.minecraft.servers\<close>, with the shape the program reads.
  \<^verbatim>\<open>port\<close>, \<^verbatim>\<open>display.chart.color\<close> and \<^verbatim>\<open>display.chart.historyHours\<close> feed
  parameters that have defaults, so they may be absent.\<close>

record display_chart =
  chart_enabled :: bool
  chart_color :: "string option"
  historyHours :: "int option"

record display_banner =
  banner_enabled :: bool
  banner_url :: string

record display_config =
  display_type :: string
  showNextUpdate :: bool
  chart :: display_chart
  banner :: display_banner

record server_config =
  name :: string
  ip :: string
  port :: "int option"
  channelId :: string
  updateInterval :: int
  display :: display_config

text \<open>\<^verbatim>\<open>config.embed\<close> (\<^verbatim>\<open>title\<close>, \<^verbatim>\<open>colors.online\<close>, \<^verbatim>\<open>colors.offline\<close>, \<^verbatim>\<open>footer\<close>) and
  \<^verbatim>\<open>config.minecraft.servers\<close>.\<close>

record bot_config =
  embed_title :: string
  colors_online :: string
  colors_offline :: string
  embed_footer :: string
  servers :: "server_config list"

text \<open>What the program builds with \<^verbatim>\<open>EmbedBuilder\<close> and \<^verbatim>\<open>AttachmentBuilder\<close>. A field
  written without \<^verbatim>\<open>inline\<close> has \<open>inline = False\<close>; a part of an embed that no builder
  call has set is \<open>None\<close>.\<close>

record embed_field =
  field_name :: string
  field_value :: string
  inline :: bool

record embed =
  title :: "string option"
  color :: "string option"
  embedTimestamp :: "int option"
  image :: "string option"
  embedFields :: "embed_field list"
  footer :: "string option"

type_synonym buffer = "nat list"

record attachment =
  attachment_data :: buffer
  attachment_name :: string

text \<open>The argument of \<^verbatim>\<open>message.edit\<close> and \<^verbatim>\<open>channel.send\<close>, and of
  \<^verbatim>\<open>interaction.reply\<close>.\<close>

record payload =
  embeds :: "embed list"
  files :: "attachment list"

record reply =
  reply_content :: "string option"
  reply_embeds :: "embed list"
  reply_files :: "attachment list"
  ephemeral :: bool

datatype channel = Channel string

datatype message = Message string

text \<open>What \<^verbatim>\<open>generatePlayerChart\<close> hands to the chart library: one label per sample (the
  locale's rendering of the sample's timestamp as hour and minute, kept here as the
  timestamp it renders), the counts, and the two colours.\<close>

record chart_request =
  label_times :: "int list"
  chart_data :: "int list"
  borderColor :: string
  backgroundColor :: string

datatype log_level = LInfo | LSuccess | LError | LWarn

text \<open>The calls a run makes, in program order: calls of the collaborators that leave the
  process or draw, the log lines, and the calls of the program's own history and chart
  functions.\<close>

datatype event =
  ChannelsFetch string
| UtilStatus string int
| CallInitializePlayerHistory string
| CallUpdatePlayerHistory string int "int option"
| NewEmbedBuilder
| CallGeneratePlayerChart string "string option"
| ChartToBuffer chart_request
| MessageEdit message payload
| ChannelSend channel payload
| InteractionReply reply
| Log log_level string

text \<open>An \<^verbatim>\<open>async\<close> function: the calls it made, and whether its promise rejected.\<close>

type_synonym 'a async = "event list \<times> (js_error + 'a)"

text \<open>The state the modelled functions touch: \<^verbatim>\<open>statusMessages\<close>, from a channel id to
  the message posted there, and \<^verbatim>\<open>playerHistory\<close>. The timers of \<^verbatim>\<open>updateIntervals\<close> are
  not modelled.\<close>

record bot_state =
  statusMessages :: "string \<rightharpoonup> message"
  playerHistory :: history_map

section \<open>Text\<close>

text \<open>Decimal rendering of a number in a template literal, for integers of magnitude below
  \<^verbatim>\<open>1e21\<close>, which are printed digit by digit (larger ones are printed in exponent
  form, which is not modelled). The numbers printed are player counts, latencies, ports and
  epoch seconds.\<close>

fun showNat :: "nat \<Rightarrow> string" where
  "showNat n = (if n < 10 then [char_of (48 + n)] else showNat (n div 10) @ [char_of (48 + n mod 10)])"

declare showNat.simps [simp del]

definition showInt :: "int \<Rightarrow> string" where
  "showInt i = (if i < 0 then CHR ''-'' # showNat (nat (- i)) else showNat (nat i))"

text \<open>\<^verbatim>\<open>${serverConfig.port}\<close>; an absent port prints as \<^verbatim>\<open>undefined\<close>.\<close>

definition showPort :: "int option \<Rightarrow> string" where
  "showPort p = (case p of None \<Rightarrow> ''undefined'' | Some n \<Rightarrow> showInt n)"

text \<open>
  \<^verbatim>\<open>String.prototype.toLowerCase\<close>. A string is kept as the bytes of its UTF-8 encoding.
  On a string of ASCII characters only, the engine folds \<^verbatim>\<open>A\<close> to \<^verbatim>\<open>Z\<close> and keeps every
  other character; that part is defined here. What the engine returns for a string with a
  character outside ASCII (its Unicode case mapping) is the parameter \<open>lowerOther\<close>.
\<close>

definition lowerChar :: "char \<Rightarrow> char" where
  "lowerChar c = (let n = (of_char c :: nat) in if 65 \<le> n \<and> n \<le> 90 then char_of (n + 32) else c)"

definition asciiOnly :: "string \<Rightarrow> bool" where
  "asciiOnly s = list_all (\<lambda>c. (of_char c :: nat) < 128) s"

definition toLowerCase :: "(string \<Rightarrow> string) \<Rightarrow> string \<Rightarrow> string" where
  "toLowerCase lowerOther s = (if asciiOnly s then map lowerChar s else lowerOther s)"



text \<open>The pictographs of the field names and values, as the UTF-8 bytes of the source file.\<close>

definition emojiServer :: string where
  "emojiServer = [CHR 0xF0, CHR 0x9F, CHR 0x93, CHR 0xA1]"

definition emojiStatus :: string where
  "emojiStatus = [CHR 0xF0, CHR 0x9F, CHR 0x94, CHR 0x8C]"

definition emojiCheck :: string where
  "emojiCheck = [CHR 0xE2, CHR 0x9C, CHR 0x85]"

definition emojiCross :: string where
  "emojiCross = [CHR 0xE2, CHR 0x9D, CHR 0x8C]"

definition emojiPlayers :: string where
  "emojiPlayers = [CHR 0xF0, CHR 0x9F, CHR 0x91, CHR 0xA5]"

definition emojiVersion :: string where
  "emojiVersion = [CHR 0xF0, CHR 0x9F, CHR 0x8F, CHR 0xB7, CHR 0xEF, CHR 0xB8, CHR 0x8F]"

definition emojiPing :: string where
  "emojiPing = [CHR 0xF0, CHR 0x9F, CHR 0x93, CHR 0x8A]"

definition emojiMotd :: string where
  "emojiMotd = [CHR 0xF0, CHR 0x9F, CHR 0x93, CHR 0x9D]"

definition emojiNextUpdate :: string where
  "emojiNextUpdate = [CHR 0xE2, CHR 0x8F, CHR 0xB1, CHR 0xEF, CHR 0xB8, CHR 0x8F]"

section \<open>Log lines\<close>

text \<open>The texts handed to \<^verbatim>\<open>log.error\<close> and \<^verbatim>\<open>log.info\<close>, in the order of the source
  (lines 199, 210, 278, 290, 292).\<close>

definition textProbeFailed :: "string \<Rightarrow> int \<Rightarrow> js_error \<Rightarrow> string" where
  "textProbeFailed ipArg portNo err =
     ''Failed to check status for '' @ ipArg @ '':'' @ showInt portNo @ '' - '' @ message err"

definition textChannelNotFound :: "server_config \<Rightarrow> string" where
  "textChannelNotFound serverConfig =
     ''Channel '' @ channelId serverConfig @ '' not found for server '' @ name serverConfig"

definition textChartFailed :: "js_error \<Rightarrow> string" where
  "textChartFailed err = ''Failed to generate player chart: '' @ message err"

definition textUpdated :: "server_config \<Rightarrow> string" where
  "textUpdated serverConfig = ''Updated status for '' @ name serverConfig"

definition textUpdateFailed :: "server_config \<Rightarrow> js_error \<Rightarrow> string" where
  "textUpdateFailed serverConfig err =
     ''Failed to update status message for '' @ name serverConfig @ '' - '' @ message err"

section \<open>The status probe (index.js, lines 187-205)\<close>

text \<open>
  \<^verbatim>\<open>checkServerStatus(ip, port = 25565)\<close>. The argument \<open>outcome\<close> is what
  \<^verbatim>\<open>await util.status(ip, port)\<close> does: it throws (\<open>Inl\<close>) or yields a response. The
  \<^verbatim>\<open>try\<close> block returns the online object, the \<^verbatim>\<open>catch\<close> block logs and returns the
  offline object.
\<close>

definition portOrDefault :: "int option \<Rightarrow> int" where
  "portOrDefault portArg = (case portArg of None \<Rightarrow> 25565 | Some p \<Rightarrow> p)"

definition checkServerStatus ::
  "string \<Rightarrow> int option \<Rightarrow> (js_error + status_response) \<Rightarrow> probe_result async" where
  "checkServerStatus ipArg portArg outcome =
     (let portNo = portOrDefault portArg
      in case outcome of
           Inr result \<Rightarrow>
             ([UtilStatus ipArg portNo],
              Inr (Online (players_online result) (players_max result) (version_name result)
                     (motd_clean result) (roundTripLatency result)))
         | Inl err \<Rightarrow>
             ([UtilStatus ipArg portNo,
               Log LError (textProbeFailed ipArg portNo err)],
              Inr (Offline (message err))))"

section \<open>The chart (index.js, lines 71-167)\<close>

definition chartRequest :: "history \<Rightarrow> string \<Rightarrow> chart_request" where
  "chartRequest history colorUsed =
     \<lparr>label_times = map timestamp history, chart_data = map count history,
      borderColor = colorUsed, backgroundColor = colorUsed @ ''33''\<rparr>"

text \<open>
  \<^verbatim>\<open>generatePlayerChart(serverId, color = '#3498db')\<close>. Creating the canvas, drawing the
  chart on it and \<^verbatim>\<open>canvas.toBuffer('image/png')\<close> are the raster backend, the parameter
  \<open>toBuffer\<close>: it throws or yields the encoded bytes. The function is \<^verbatim>\<open>async\<close> but has
  no \<^verbatim>\<open>await\<close>: its body runs to the end when it is called.
\<close>

definition colorOrDefault :: "string option \<Rightarrow> string" where
  "colorOrDefault colorArg = (case colorArg of None \<Rightarrow> ''#3498db'' | Some c \<Rightarrow> c)"

definition generatePlayerChart ::
  "(chart_request \<Rightarrow> js_error + buffer) \<Rightarrow> string \<Rightarrow> string option \<Rightarrow> history_map
     \<Rightarrow> buffer option async" where
  "generatePlayerChart toBuffer serverId colorArg histories =
     (let colorUsed = colorOrDefault colorArg;
          history = snapshot histories serverId
      in if length history < 2 then ([], Inr None)
         else (let request = chartRequest history colorUsed
               in ([ChartToBuffer request],
                   case toBuffer request of Inl err \<Rightarrow> Inl err | Inr png \<Rightarrow> Inr (Some png))))"

text \<open>The eight bytes every PNG stream starts with.\<close>

definition pngSignature :: buffer where
  "pngSignature = [137, 80, 78, 71, 13, 10, 26, 10]"

text \<open>
  Modelled from the spec: the raster backend, that is the canvas and chart libraries behind
  \<^verbatim>\<open>createCanvas\<close>, \<^verbatim>\<open>new Chart\<close> and \<^verbatim>\<open>canvas.toBuffer('image/png')\<close>, which are not
  under src/. The spec (sections 4.3 and 6) has the backend produce the encoded image
  bytes of a fixed-dimension raster from the chart description, deterministically and with
  no failure case; the source asks for the PNG encoding, and a PNG stream starts with its
  signature. The bytes after the signature are the parameter \<open>body\<close>.
\<close>

definition pngBackend :: "(chart_request \<Rightarrow> buffer) \<Rightarrow> chart_request \<Rightarrow> js_error + buffer" where
  "pngBackend body request = Inr (pngSignature @ body request)"

section \<open>Building an embed\<close>

text \<open>
  The calls the program makes on an \<^verbatim>\<open>EmbedBuilder\<close>. The chat library validates the
  argument of each call and throws when it refuses it (a field value that is empty or too
  long, for instance). What it refuses is the parameter \<open>validate\<close>: \<open>Some err\<close> is the
  error thrown for a call.
\<close>

datatype builder_call =
  SetTitle string
| SetColor string
| SetTimestamp int
| SetImage string
| AddFields "embed_field list"
| SetFooter string

type_synonym validator = "builder_call \<Rightarrow> js_error option"

definition newEmbed :: embed where
  "newEmbed = \<lparr>title = None, color = None, embedTimestamp = None, image = None,
               embedFields = [], footer = None\<rparr>"

fun applyBuilder :: "builder_call \<Rightarrow> embed \<Rightarrow> embed" where
  "applyBuilder (SetTitle t) emb = emb\<lparr>title := Some t\<rparr>"
| "applyBuilder (SetColor c) emb = emb\<lparr>color := Some c\<rparr>"
| "applyBuilder (SetTimestamp t) emb = emb\<lparr>embedTimestamp := Some t\<rparr>"
| "applyBuilder (SetImage u) emb = emb\<lparr>image := Some u\<rparr>"
| "applyBuilder (AddFields fs) emb = emb\<lparr>embedFields := embedFields emb @ fs\<rparr>"
| "applyBuilder (SetFooter f) emb = emb\<lparr>footer := Some f\<rparr>"

definition builder :: "validator \<Rightarrow> builder_call \<Rightarrow> embed \<Rightarrow> js_error + embed" where
  "builder validate call emb =
     (case validate call of Some err \<Rightarrow> Inl err | None \<Rightarrow> Inr (applyBuilder call emb))"

text \<open>Statements one after another: the first one that throws ends the sequence.\<close>

definition thenDo :: "js_error + 'a \<Rightarrow> ('a \<Rightarrow> js_error + 'b) \<Rightarrow> js_error + 'b" where
  "thenDo r k = (case r of Inl err \<Rightarrow> Inl err | Inr v \<Rightarrow> k v)"

definition nextUpdateField :: "int \<Rightarrow> int \<Rightarrow> embed_field" where
  "nextUpdateField nowNext interval =
     \<lparr>field_name = emojiNextUpdate @ '' Next Update'',
      field_value = ''<t:'' @ showInt ((nowNext + interval) div 1000) @ '':R>'',
      inline = True\<rparr>"

definition errorField :: "probe_result \<Rightarrow> embed_field" where
  "errorField status =
     \<lparr>field_name = emojiCross @ '' Error'',
      field_value = (if error status = [] then ''Could not connect to server'' else error status),
      inline = False\<rparr>"

text \<open>Lines 222-261 of the tick: the embed before the chart is attached. None of these
  calls is inside a \<^verbatim>\<open>try\<close>.\<close>

definition statusEmbed ::
  "validator \<Rightarrow> bot_config \<Rightarrow> server_config \<Rightarrow> probe_result \<Rightarrow> int \<Rightarrow> int
     \<Rightarrow> js_error + embed" where
  "statusEmbed validate config serverConfig status nowEmbed nowNext =
     thenDo (builder validate (SetTitle (embed_title config)) newEmbed) (\<lambda>e1.
     thenDo (builder validate
               (SetColor (if online status then colors_online config else colors_offline config))
               e1) (\<lambda>e2.
     thenDo (builder validate (SetTimestamp nowEmbed) e2) (\<lambda>e3.
     thenDo (if display_type (display serverConfig) = ''banner'' \<and>
                banner_enabled (banner (display serverConfig))
             then builder validate (SetImage (banner_url (banner (display serverConfig)))) e3
             else Inr e3) (\<lambda>e4.
     thenDo (builder validate
               (AddFields
                  [\<lparr>field_name = emojiServer @ '' Server'',
                    field_value = name serverConfig @ '' ('' @ ip serverConfig @ '':'' @
                                  showPort (port serverConfig) @ '')'',
                    inline = True\<rparr>,
                   \<lparr>field_name = emojiStatus @ '' Status'',
                    field_value = (if online status then emojiCheck @ '' Online''
                                   else emojiCross @ '' Offline''),
                    inline = True\<rparr>]) e4) (\<lambda>e5.
     thenDo (if online status then
               thenDo (builder validate
                         (AddFields
                            [\<lparr>field_name = emojiPlayers @ '' Players'',
                              field_value = showInt (players status) @ ''/'' @
                                            showInt (maxPlayers status),
                              inline = True\<rparr>,
                             \<lparr>field_name = emojiVersion @ '' Version'',
                              field_value = version status, inline = True\<rparr>,
                             \<lparr>field_name = emojiPing @ '' Ping'',
                              field_value = showInt (ping status) @ ''ms'', inline = True\<rparr>,
                             \<lparr>field_name = emojiMotd @ '' MOTD'',
                              field_value = (if description status = []
                                             then ''No description available''
                                             else description status),
                              inline = False\<rparr>]) e5) (\<lambda>e6.
               if showNextUpdate (display serverConfig)
               then builder validate
                      (AddFields [nextUpdateField nowNext (updateInterval serverConfig)]) e6
               else Inr e6)
             else builder validate (AddFields [errorField status]) e5) (\<lambda>e7.
     builder validate (SetFooter (embed_footer config)) e7))))))"

text \<open>Lines 333-360 of the status command: the embed of the reply. None of these calls is
  inside a \<^verbatim>\<open>try\<close>.\<close>

definition commandEmbed ::
  "validator \<Rightarrow> bot_config \<Rightarrow> server_config \<Rightarrow> probe_result \<Rightarrow> int \<Rightarrow> int
     \<Rightarrow> js_error + embed" where
  "commandEmbed validate config server status nowEmbed nowNext =
     thenDo (builder validate (SetTitle (name server @ '' Status'')) newEmbed) (\<lambda>e1.
     thenDo (builder validate
               (SetColor (if online status then colors_online config else colors_offline config))
               e1) (\<lambda>e2.
     thenDo (builder validate (SetTimestamp nowEmbed) e2) (\<lambda>e3.
     thenDo (builder validate (SetFooter (embed_footer config)) e3) (\<lambda>e4.
     if online status then
       thenDo (builder validate
                 (AddFields
                    [\<lparr>field_name = emojiStatus @ '' Status'',
                      field_value = emojiCheck @ '' Online'', inline = True\<rparr>,
                     \<lparr>field_name = emojiPlayers @ '' Players'',
                      field_value = showInt (players status) @ ''/'' @ showInt (maxPlayers status),
                      inline = True\<rparr>,
                     \<lparr>field_name = emojiPing @ '' Ping'',
                      field_value = showInt (ping status) @ ''ms'', inline = True\<rparr>,
                     \<lparr>field_name = emojiVersion @ '' Version'',
                      field_value = version status, inline = False\<rparr>]) e4) (\<lambda>e5.
       if showNextUpdate (display server)
       then builder validate (AddFields [nextUpdateField nowNext (updateInterval server)]) e5
       else Inr e5)
     else builder validate
            (AddFields
               [\<lparr>field_name = emojiStatus @ '' Status'',
                 field_value = emojiCross @ '' Offline'', inline = True\<rparr>,
                errorField status]) e4))))"

section \<open>The chart in a payload (index.js, lines 266-280 and 363-376)\<close>

text \<open>The call \<^verbatim>\<open>generatePlayerChart(channelId, display.chart.color)\<close>: the calls it makes
  and the promise it returns, which is settled already.\<close>

definition callChart ::
  "(chart_request \<Rightarrow> js_error + buffer) \<Rightarrow> server_config \<Rightarrow> history_map
     \<Rightarrow> event list \<times> (js_error + buffer option)" where
  "callChart toBuffer serverConfig histories =
     (case generatePlayerChart toBuffer (channelId serverConfig)
             (chart_color (chart (display serverConfig))) histories of
        (evs, promise) \<Rightarrow>
          (CallGeneratePlayerChart (channelId serverConfig)
             (chart_color (chart (display serverConfig))) # evs, promise))"

text \<open>
  The rest of the \<^verbatim>\<open>try\<close>/\<^verbatim>\<open>catch\<close>, after the \<^verbatim>\<open>await\<close>: with a buffer, the
  attachment is pushed to \<^verbatim>\<open>files\<close> and the image of the embed is set; a rejected promise
  or a refused \<^verbatim>\<open>setImage\<close> is caught and logged. A \<^verbatim>\<open>Buffer\<close> is truthy whatever its
  length. The result is the log lines, \<^verbatim>\<open>files\<close> and the embed.
\<close>

definition attachChart ::
  "validator \<Rightarrow> js_error + buffer option \<Rightarrow> embed \<Rightarrow> event list \<times> attachment list \<times> embed" where
  "attachChart validate promise emb =
     (case promise of
        Inl err \<Rightarrow> ([Log LError (textChartFailed err)], [], emb)
      | Inr None \<Rightarrow> ([], [], emb)
      | Inr (Some chartBuffer) \<Rightarrow>
          (case builder validate (SetImage ''attachment://player-chart.png'') emb of
             Inl err \<Rightarrow>
               ([Log LError (textChartFailed err)],
                [\<lparr>attachment_data = chartBuffer, attachment_name = ''player-chart.png''\<rparr>], emb)
           | Inr emb' \<Rightarrow>
               ([], [\<lparr>attachment_data = chartBuffer, attachment_name = ''player-chart.png''\<rparr>],
                emb')))"

section \<open>The scheduled tick (index.js, lines 207-294)\<close>

text \<open>
  \<^verbatim>\<open>updateServerStatus\<close> is \<^verbatim>\<open>async\<close>, and the timers start it without waiting for it
  (lines 306 and 309): at each \<^verbatim>\<open>await\<close> a tick is suspended and other ticks and the
  command handler may run, between two of them it runs without interruption. The tick is
  therefore modelled piece by piece, a piece being the code between two suspensions.

  What the outside world does for one tick: the outcome of each awaited call, the clock
  readings, the raster backend and the embed validation.
\<close>

record tick_env =
  fetched :: "js_error + channel option"
  queried :: "js_error + status_response"
  now_history :: int
  now_embed :: int
  now_next :: int
  toBuffer :: "chart_request \<Rightarrow> js_error + buffer"
  validate :: validator
  edited :: "js_error + unit"
  sent :: "js_error + message"

text \<open>Where a suspended tick waits, with the local variables it needs when it goes on: for
  the channel, for the probe, for the chart, for the edit or for the send.\<close>

datatype tick_cont =
  AwaitFetch
| AwaitStatus channel
| AwaitChart channel embed "js_error + buffer option"
| AwaitEdit
| AwaitSend

text \<open>A piece of a tick: the calls it made, then either where the tick is suspended
  (\<open>Inl\<close>) or how its promise settled (\<open>Inr\<close>), and the state it leaves.\<close>

type_synonym piece = "event list \<times> (tick_cont + (js_error + unit)) \<times> bot_state"

text \<open>\<^verbatim>\<open>client.channels.fetch(id).catch(() => null)\<close>: a rejection becomes \<^verbatim>\<open>null\<close>.\<close>

definition fetchOrNull :: "js_error + channel option \<Rightarrow> channel option" where
  "fetchOrNull outcome = (case outcome of Inl err \<Rightarrow> None | Inr found \<Rightarrow> found)"

text \<open>Line 208, up to the \<^verbatim>\<open>await\<close>.\<close>

definition tickStart :: "server_config \<Rightarrow> bot_state \<Rightarrow> piece" where
  "tickStart serverConfig s = ([ChannelsFetch (channelId serverConfig)], Inl AwaitFetch, s)"

text \<open>Lines 208-214: without a channel the tick logs and returns; otherwise it calls
  \<^verbatim>\<open>checkServerStatus\<close>, which calls \<^verbatim>\<open>util.status\<close> and is suspended there.\<close>

definition afterFetch :: "tick_env \<Rightarrow> server_config \<Rightarrow> bot_state \<Rightarrow> piece" where
  "afterFetch env serverConfig s =
     (case fetchOrNull (fetched env) of
        None \<Rightarrow> ([Log LError (textChannelNotFound serverConfig)], Inr (Inr ()), s)
      | Some chan \<Rightarrow>
          ([UtilStatus (ip serverConfig) (portOrDefault (port serverConfig))],
           Inl (AwaitStatus chan), s))"

text \<open>What \<^verbatim>\<open>checkServerStatus\<close> does once \<^verbatim>\<open>util.status\<close> has settled: all its calls but
  the first, and its result.\<close>

definition checkServerStatusResumed ::
  "string \<Rightarrow> int option \<Rightarrow> (js_error + status_response) \<Rightarrow> probe_result async" where
  "checkServerStatusResumed ipArg portArg outcome =
     (case checkServerStatus ipArg portArg outcome of (evs, result) \<Rightarrow> (drop 1 evs, result))"

text \<open>Lines 216-220: the history is written only when the probe result is online.\<close>

definition recordIfOnline ::
  "tick_env \<Rightarrow> server_config \<Rightarrow> probe_result \<Rightarrow> bot_state \<Rightarrow> event list \<times> bot_state" where
  "recordIfOnline env serverConfig status s =
     (if online status then
        ([CallInitializePlayerHistory (channelId serverConfig),
          CallUpdatePlayerHistory (channelId serverConfig) (players status)
            (historyHours (chart (display serverConfig)))],
         s\<lparr>playerHistory :=
             updatePlayerHistory (channelId serverConfig) (players status)
               (historyHours (chart (display serverConfig))) (now_history env)
               (initializePlayerHistory (channelId serverConfig) (playerHistory s))\<rparr>)
      else ([], s))"

text \<open>Lines 282-287, up to the \<^verbatim>\<open>await\<close>: the lookup in \<^verbatim>\<open>statusMessages\<close> and the call
  it decides, an edit of the stored message or a send to the channel.\<close>

definition issueDelivery ::
  "server_config \<Rightarrow> channel \<Rightarrow> payload \<Rightarrow> bot_state \<Rightarrow> event list \<times> tick_cont" where
  "issueDelivery serverConfig chan pl s =
     (case statusMessages s (channelId serverConfig) of
        Some existingMessage \<Rightarrow> ([MessageEdit existingMessage pl], AwaitEdit)
      | None \<Rightarrow> ([ChannelSend chan pl], AwaitSend))"

text \<open>The chart is asked for in chart mode, when enabled, for an online result (line 266).\<close>

definition chartWanted :: "server_config \<Rightarrow> probe_result \<Rightarrow> bool" where
  "chartWanted serverConfig status =
     (display_type (display serverConfig) = ''chart'' \<and>
      chart_enabled (chart (display serverConfig)) \<and> online status)"

text \<open>
  Lines 214-287, from the settled probe to the next suspension: the history record, the
  embed (a refused builder call rejects the tick here, after the history was written), then
  either the call of \<^verbatim>\<open>generatePlayerChart\<close>, whose promise is awaited, or, when no chart
  is wanted, the lookup and the delivery call at once.
\<close>

definition afterStatus ::
  "tick_env \<Rightarrow> bot_config \<Rightarrow> server_config \<Rightarrow> channel \<Rightarrow> bot_state \<Rightarrow> piece" where
  "afterStatus env config serverConfig chan s =
     (case checkServerStatusResumed (ip serverConfig) (port serverConfig) (queried env) of
        (evProbe, Inl err) \<Rightarrow> (evProbe, Inr (Inl err), s)
      | (evProbe, Inr status) \<Rightarrow>
          (case recordIfOnline env serverConfig status s of
             (evHistory, s1) \<Rightarrow>
               (case statusEmbed (validate env) config serverConfig status
                       (now_embed env) (now_next env) of
                  Inl err \<Rightarrow> (evProbe @ evHistory @ [NewEmbedBuilder], Inr (Inl err), s1)
                | Inr emb \<Rightarrow>
                    if chartWanted serverConfig status then
                      (case callChart (toBuffer env) serverConfig (playerHistory s1) of
                         (evChart, promise) \<Rightarrow>
                           (evProbe @ evHistory @ [NewEmbedBuilder] @ evChart,
                            Inl (AwaitChart chan emb promise), s1))
                    else
                      (case issueDelivery serverConfig chan \<lparr>embeds = [emb], files = []\<rparr> s1 of
                         (evIssue, cont) \<Rightarrow>
                           (evProbe @ evHistory @ [NewEmbedBuilder] @ evIssue, Inl cont, s1)))))"

text \<open>Lines 268-287, from the settled chart promise to the delivery call.\<close>

definition afterChart ::
  "tick_env \<Rightarrow> server_config \<Rightarrow> channel \<Rightarrow> embed \<Rightarrow> js_error + buffer option \<Rightarrow> bot_state
     \<Rightarrow> piece" where
  "afterChart env serverConfig chan emb promise s =
     (case attachChart (validate env) promise emb of
        (evAttach, fs, emb') \<Rightarrow>
          (case issueDelivery serverConfig chan \<lparr>embeds = [emb'], files = fs\<rparr> s of
             (evIssue, cont) \<Rightarrow> (evAttach @ evIssue, Inl cont, s)))"

text \<open>Lines 285 and 290-293: the edit has settled. A failed edit is logged; nothing is
  sent in its place.\<close>

definition afterEdit :: "tick_env \<Rightarrow> server_config \<Rightarrow> bot_state \<Rightarrow> piece" where
  "afterEdit env serverConfig s =
     (case edited env of
        Inr done \<Rightarrow> ([Log LInfo (textUpdated serverConfig)], Inr (Inr ()), s)
      | Inl err \<Rightarrow> ([Log LError (textUpdateFailed serverConfig err)], Inr (Inr ()), s))"

text \<open>Lines 287-293: the send has settled. The message sent is stored under the channel
  id, whatever is stored there by now.\<close>

definition afterSend :: "tick_env \<Rightarrow> server_config \<Rightarrow> bot_state \<Rightarrow> piece" where
  "afterSend env serverConfig s =
     (case sent env of
        Inr msg \<Rightarrow>
          ([Log LInfo (textUpdated serverConfig)], Inr (Inr ()),
           s\<lparr>statusMessages := (statusMessages s)(channelId serverConfig \<mapsto> msg)\<rparr>)
      | Inl err \<Rightarrow> ([Log LError (textUpdateFailed serverConfig err)], Inr (Inr ()), s))"

text \<open>A suspended tick goes on, in the state it finds.\<close>

fun resume :: "tick_env \<Rightarrow> bot_config \<Rightarrow> server_config \<Rightarrow> tick_cont \<Rightarrow> bot_state \<Rightarrow> piece" where
  "resume env config serverConfig AwaitFetch s = afterFetch env serverConfig s"
| "resume env config serverConfig (AwaitStatus chan) s = afterStatus env config serverConfig chan s"
| "resume env config serverConfig (AwaitChart chan emb promise) s =
     afterChart env serverConfig chan emb promise s"
| "resume env config serverConfig AwaitEdit s = afterEdit env serverConfig s"
| "resume env config serverConfig AwaitSend s = afterSend env serverConfig s"

text \<open>
  One more piece of a tick, if it is suspended; \<open>others\<close> is what the rest of the program
  did to the state while it was suspended.
\<close>

definition thenResume ::
  "tick_env \<Rightarrow> bot_config \<Rightarrow> server_config \<Rightarrow> (bot_state \<Rightarrow> bot_state) \<Rightarrow> piece \<Rightarrow> piece" where
  "thenResume env config serverConfig others p =
     (case p of
        (evs, Inr settled, s) \<Rightarrow> (evs, Inr settled, s)
      | (evs, Inl cont, s) \<Rightarrow>
          (case resume env config serverConfig cont (others s) of
             (evs', next, s') \<Rightarrow> (evs @ evs', next, s')))"

text \<open>A whole tick among other activity: at most four suspensions (channel, probe, chart,
  delivery), and what the others do during each.\<close>

definition tickAmong ::
  "tick_env \<Rightarrow> bot_config \<Rightarrow> server_config \<Rightarrow>
   (bot_state \<Rightarrow> bot_state) \<Rightarrow> (bot_state \<Rightarrow> bot_state) \<Rightarrow> (bot_state \<Rightarrow> bot_state) \<Rightarrow>
   (bot_state \<Rightarrow> bot_state) \<Rightarrow> bot_state \<Rightarrow> piece" where
  "tickAmong env config serverConfig others1 others2 others3 others4 s =
     thenResume env config serverConfig others4
       (thenResume env config serverConfig others3
          (thenResume env config serverConfig others2
             (thenResume env config serverConfig others1 (tickStart serverConfig s))))"

text \<open>
  \<^verbatim>\<open>updateServerStatus(serverConfig)\<close> run from its call to the end with nothing else
  running in between: its calls, how its promise settles, and the state it leaves. (After
  four resumptions every tick has settled; the last case is never taken.)
\<close>

definition updateServerStatus ::
  "tick_env \<Rightarrow> bot_config \<Rightarrow> server_config \<Rightarrow> bot_state \<Rightarrow> unit async \<times> bot_state" where
  "updateServerStatus env config serverConfig s =
     (case tickAmong env config serverConfig (\<lambda>x. x) (\<lambda>x. x) (\<lambda>x. x) (\<lambda>x. x) s of
        (evs, Inr settled, s') \<Rightarrow> ((evs, settled), s')
      | (evs, Inl cont, s') \<Rightarrow> ((evs, Inr ()), s'))"








section \<open>The status command (index.js, lines 316-387)\<close>

text \<open>The interaction as the handler reads it: \<^verbatim>\<open>isCommand()\<close>, \<^verbatim>\<open>commandName\<close> and
  \<^verbatim>\<open>options.getString('server')\<close>, which is \<^verbatim>\<open>null\<close> when the option was not given.\<close>

record interaction =
  isCommand :: bool
  commandName :: string
  serverOption :: "string option"

record command_env =
  cmd_lowerOther :: "string \<Rightarrow> string"
  cmd_queried :: "js_error + status_response"
  cmd_now_embed :: int
  cmd_now_next :: int
  cmd_toBuffer :: "chart_request \<Rightarrow> js_error + buffer"
  cmd_validate :: validator
  replied :: "js_error + unit"

text \<open>
  \<^verbatim>\<open>config.minecraft.servers.find(s => s.name.toLowerCase() === serverName.toLowerCase())\<close>.
  The callback runs on each target in turn until one matches; with a \<^verbatim>\<open>null\<close> name its
  first run throws a \<^verbatim>\<open>TypeError\<close>.
\<close>

fun findServer ::
  "(string \<Rightarrow> string) \<Rightarrow> server_config list \<Rightarrow> string option \<Rightarrow> js_error + server_config option" where
  "findServer lowerOther [] serverName = Inr None"
| "findServer lowerOther (s # rest) None =
     Inl (Error ''Cannot read properties of null (reading 'toLowerCase')'')"
| "findServer lowerOther (s # rest) (Some serverName) =
     (if toLowerCase lowerOther (name s) = toLowerCase lowerOther serverName then Inr (Some s)
      else findServer lowerOther rest (Some serverName))"

definition notFoundReply :: "string option \<Rightarrow> reply" where
  "notFoundReply serverName =
     \<lparr>reply_content =
        Some (''Server '' @ [CHR 0x22] @ (case serverName of None \<Rightarrow> ''null'' | Some n \<Rightarrow> n) @
              [CHR 0x22] @ '' not found in configuration!''),
      reply_embeds = [], reply_files = [], ephemeral = True\<rparr>"

text \<open>Lines 362-379: the chart inside its \<^verbatim>\<open>try\<close>, or else the banner, whose
  \<^verbatim>\<open>setImage\<close> is not inside a \<^verbatim>\<open>try\<close>. The result is the calls, \<^verbatim>\<open>files\<close> and the
  embed, or the error thrown.\<close>

definition commandImage ::
  "command_env \<Rightarrow> server_config \<Rightarrow> probe_result \<Rightarrow> history_map \<Rightarrow> embed
     \<Rightarrow> event list \<times> (js_error + attachment list \<times> embed)" where
  "commandImage env server status histories emb =
     (if chartWanted server status then
        (case callChart (cmd_toBuffer env) server histories of
           (evChart, promise) \<Rightarrow>
             (case attachChart (cmd_validate env) promise emb of
                (evAttach, fs, emb') \<Rightarrow> (evChart @ evAttach, Inr (fs, emb'))))
      else if display_type (display server) = ''banner'' \<and> banner_enabled (banner (display server))
      then (case builder (cmd_validate env) (SetImage (banner_url (banner (display server)))) emb of
              Inl err \<Rightarrow> ([], Inl err)
            | Inr emb' \<Rightarrow> ([], Inr ([], emb')))
      else ([], Inr ([], emb)))"

text \<open>
  The \<^verbatim>\<open>interactionCreate\<close> handler. It has no statement that writes \<^verbatim>\<open>playerHistory\<close> or
  touches \<^verbatim>\<open>statusMessages\<close>, and it reads the state at one place only, the history in
  \<^verbatim>\<open>generatePlayerChart\<close>: \<open>s\<close> is the state at that moment. The state is passed through
  so that what the handler leaves can be stated.
\<close>

definition onInteractionCreate ::
  "command_env \<Rightarrow> bot_config \<Rightarrow> interaction \<Rightarrow> bot_state \<Rightarrow> unit async \<times> bot_state" where
  "onInteractionCreate env config request s =
     (if \<not> isCommand request then (([], Inr ()), s)
      else if commandName request = ''status'' then
        (case findServer (cmd_lowerOther env) (servers config) (serverOption request) of
           Inl err \<Rightarrow> (([], Inl err), s)
         | Inr None \<Rightarrow>
             (([InteractionReply (notFoundReply (serverOption request))], replied env), s)
         | Inr (Some server) \<Rightarrow>
             (case checkServerStatus (ip server) (port server) (cmd_queried env) of
                (evProbe, Inl err) \<Rightarrow> ((evProbe, Inl err), s)
              | (evProbe, Inr status) \<Rightarrow>
                  (case commandEmbed (cmd_validate env) config server status
                          (cmd_now_embed env) (cmd_now_next env) of
                     Inl err \<Rightarrow> ((evProbe @ [NewEmbedBuilder], Inl err), s)
                   | Inr emb \<Rightarrow>
                       (case commandImage env server status (playerHistory s) emb of
                          (evImage, Inl err) \<Rightarrow>
                            ((evProbe @ [NewEmbedBuilder] @ evImage, Inl err), s)
                        | (evImage, Inr (fs, emb')) \<Rightarrow>
                            ((evProbe @ [NewEmbedBuilder] @ evImage @
                                [InteractionReply
                                   \<lparr>reply_content = None, reply_embeds = [emb'],
                                    reply_files = fs, ephemeral = True\<rparr>],
                              replied env), s)))))
      else (([], Inr ()), s))"

section \<open>Reading a run\<close>

fun isLog :: "event \<Rightarrow> bool" where
  "isLog (Log l t) = True"
| "isLog e = False"

fun isFetch :: "event \<Rightarrow> bool" where
  "isFetch (ChannelsFetch c) = True"
| "isFetch e = False"

fun isProbe :: "event \<Rightarrow> bool" where
  "isProbe (UtilStatus h p) = True"
| "isProbe e = False"

fun isHistoryWrite :: "event \<Rightarrow> bool" where
  "isHistoryWrite (CallInitializePlayerHistory c) = True"
| "isHistoryWrite (CallUpdatePlayerHistory c n h) = True"
| "isHistoryWrite e = False"

fun isRender :: "event \<Rightarrow> bool" where
  "isRender (CallGeneratePlayerChart c col) = True"
| "isRender (ChartToBuffer r) = True"
| "isRender e = False"

fun isEdit :: "event \<Rightarrow> bool" where
  "isEdit (MessageEdit m p) = True"
| "isEdit e = False"

fun isSend :: "event \<Rightarrow> bool" where
  "isSend (ChannelSend c p) = True"
| "isSend e = False"

fun isReply :: "event \<Rightarrow> bool" where
  "isReply (InteractionReply r) = True"
| "isReply e = False"

text \<open>The calls of a run without its log lines.\<close>

definition steps :: "event list \<Rightarrow> event list" where
  "steps evs = filter (\<lambda>e. \<not> isLog e) evs"

text \<open>The stage of a tick a call belongs to: destination resolution, probe, history
  record, presentation build, chart render, delivery.\<close>

fun phase :: "event \<Rightarrow> nat" where
  "phase (ChannelsFetch c) = 0"
| "phase (UtilStatus h p) = 1"
| "phase (CallInitializePlayerHistory c) = 2"
| "phase (CallUpdatePlayerHistory c n h) = 2"
| "phase NewEmbedBuilder = 3"
| "phase (CallGeneratePlayerChart c col) = 4"
| "phase (ChartToBuffer r) = 4"
| "phase (MessageEdit m p) = 5"
| "phase (ChannelSend c p) = 5"
| "phase (InteractionReply r) = 5"
| "phase (Log l t) = 6"

text \<open>The position of the first call of a kind (the length of the run if there is none),
  and whether the first call of one kind comes before the first call of another.\<close>

definition firstIndex :: "(event \<Rightarrow> bool) \<Rightarrow> event list \<Rightarrow> nat" where
  "firstIndex P evs = length (takeWhile (\<lambda>e. \<not> P e) evs)"

definition precedes :: "(event \<Rightarrow> bool) \<Rightarrow> (event \<Rightarrow> bool) \<Rightarrow> event list \<Rightarrow> bool" where
  "precedes P Q evs = (firstIndex P evs < firstIndex Q evs)"

section \<open>Reading what a piece does\<close>


section \<open>A configured target and what the world may answer\<close>

definition exampleServer :: server_config where
  "exampleServer =
     \<lparr>name = ''Lobby'', ip = ''mc.example.org'', port = Some 25565, channelId = ''1001'',
      updateInterval = 60000,
      display = \<lparr>display_type = ''chart'', showNextUpdate = True,
                  chart = \<lparr>chart_enabled = True, chart_color = Some ''#3498db'',
                            historyHours = Some 24\<rparr>,
                  banner = \<lparr>banner_enabled = False, banner_url = []\<rparr>\<rparr>\<rparr>"


definition exampleConfig :: bot_config where
  "exampleConfig =
     \<lparr>embed_title = ''Server Status'', colors_online = ''#00ff00'', colors_offline = ''#ff0000'',
      embed_footer = ''Team BLK'', servers = [exampleServer]\<rparr>"

definition exampleResponse :: status_response where
  "exampleResponse =
     \<lparr>players_online = 5, players_max = 20, version_name = ''1.20.4'', motd_clean = ''Welcome'',
      roundTripLatency = 42\<rparr>"

text \<open>A validation that refuses nothing.\<close>

definition acceptAll :: validator where
  "acceptAll call = None"

definition onlineEnv :: tick_env where
  "onlineEnv =
     \<lparr>fetched = Inr (Some (Channel ''1001'')), queried = Inr exampleResponse,
      now_history = 0, now_embed = 0, now_next = 0,
      toBuffer = pngBackend (\<lambda>request. []), validate = acceptAll,
      edited = Inr (), sent = Inr (Message ''m1'')\<rparr>"


definition offlineEnv :: tick_env where
  "offlineEnv = onlineEnv\<lparr>queried := Inl (Error ''connect ECONNREFUSED'')\<rparr>"

definition emptyState :: bot_state where
  "emptyState = \<lparr>statusMessages = Map.empty, playerHistory = Map.empty\<rparr>"


definition unreachableEnv :: tick_env where
  "unreachableEnv = onlineEnv\<lparr>fetched := Inl (Error ''Unknown Channel'')\<rparr>"


definition twoSamples :: history_map where
  "twoSamples = [''1001'' \<mapsto> [\<lparr>timestamp = 0, count = 5\<rparr>, \<lparr>timestamp = 3600000, count = 8\<rparr>]]"

definition commandEnv :: command_env where
  "commandEnv =
     \<lparr>cmd_lowerOther = (\<lambda>s. s), cmd_queried = Inr exampleResponse, cmd_now_embed = 0,
      cmd_now_next = 0, cmd_toBuffer = pngBackend (\<lambda>request. []), cmd_validate = acceptAll,
      replied = Inr ()\<rparr>"

definition statusCommand :: "string \<Rightarrow> interaction" where
  "statusCommand serverName =
     \<lparr>isCommand = True, commandName = ''status'', serverOption = Some serverName\<rparr>"

definition chartedState :: bot_state where
  "chartedState = \<lparr>statusMessages = [''1001'' \<mapsto> Message ''m0''], playerHistory = twoSamples\<rparr>"



section \<open>Properties of the history store\<close>

lemma snapshot_upd_same [simp]: "snapshot (m(k \<mapsto> h)) k = h"
  by (simp add: snapshot_def)

lemma snapshot_upd_other [simp]: "k' \<noteq> k \<Longrightarrow> snapshot (m(k \<mapsto> h)) k' = snapshot m k'"
  by (simp add: snapshot_def)

lemma update_other_key:
  "k' \<noteq> k \<Longrightarrow> updatePlayerHistory k c cap now m k' = m k'"
  by (simp add: updatePlayerHistory_def Let_def)

lemma update_newest: "xs \<noteq> [] \<Longrightarrow> xs[length xs - Suc 0 := v] = butlast xs @ [v]"
  by (cases xs rule: rev_cases) auto

lemma update_coalesce:
  assumes "snapshot m k \<noteq> []"
    and "now - timestamp (last (snapshot m k)) < 3600000"
  shows "snapshot (updatePlayerHistory k c cap now m) k =
           butlast (snapshot m k) @ [(last (snapshot m k))\<lparr>count := c\<rparr>]"
proof -
  let ?h = "snapshot m k"
  have l: "?h ! (length ?h - Suc 0) = last ?h"
    using assms(1) by (simp add: last_conv_nth)
  have "snapshot (updatePlayerHistory k c cap now m) k =
          ?h[length ?h - 1 := (last ?h)\<lparr>count := c\<rparr>]"
    using assms by (simp add: updatePlayerHistory_def Let_def l)
  also have "\<dots> = butlast ?h @ [(last ?h)\<lparr>count := c\<rparr>]"
    using assms(1) by (simp add: update_newest)
  finally show ?thesis .
qed

lemma update_append:
  assumes "snapshot m k = [] \<or> now - timestamp (last (snapshot m k)) \<ge> 3600000"
  shows "snapshot (updatePlayerHistory k c cap now m) k =
           (let pushed = snapshot m k @ [\<lparr>timestamp = now, count = c\<rparr>]
            in if int (length pushed) > maxHistoryOrDefault cap
               then tl pushed else pushed)"
proof (cases "snapshot m k = []")
  case True
  then show ?thesis by (simp add: updatePlayerHistory_def Let_def)
next
  case False
  then have "snapshot m k ! (length (snapshot m k) - Suc 0) = last (snapshot m k)"
    by (simp add: last_conv_nth)
  with False assms show ?thesis by (simp add: updatePlayerHistory_def Let_def)
qed

text \<open>
  Claim C1 (coalescing). A record call on a non-empty series whose newest sample is less
  than one sampling interval (3600000 ms) older than the current clock reading keeps the
  length of the series, keeps every older sample, keeps every timestamp, and overwrites
  only the value of the newest sample with the new observation. The series of every
  other channel id is untouched.
\<close>

theorem C1_coalesce_within_interval:
  assumes "store serverId = Some history"
    and "history \<noteq> []"
    and "currentTime - timestamp (last history) < 3600000"
  shows "\<exists>history'.
           updatePlayerHistory serverId playerCount maxHistoryArg currentTime store serverId
             = Some history' \<and>
           length history' = length history \<and>
           butlast history' = butlast history \<and>
           map timestamp history' = map timestamp history \<and>
           count (last history') = playerCount \<and>
           history' = butlast history @ [(last history)\<lparr>count := playerCount\<rparr>] \<and>
           (\<forall>other. other \<noteq> serverId \<longrightarrow>
              updatePlayerHistory serverId playerCount maxHistoryArg currentTime store other
                = store other)"
proof -
  have s: "snapshot store serverId = history"
    using assms(1) by (simp add: snapshot_def)
  let ?m = "updatePlayerHistory serverId playerCount maxHistoryArg currentTime store"
  let ?h' = "butlast history @ [(last history)\<lparr>count := playerCount\<rparr>]"
  have dom: "?m serverId = Some (snapshot ?m serverId)"
    by (simp add: updatePlayerHistory_def Let_def)
  have eq: "snapshot ?m serverId = ?h'"
    using update_coalesce [of store serverId currentTime playerCount maxHistoryArg] assms(2,3) s
    by simp
  have ts: "map timestamp ?h' = map timestamp (butlast history @ [last history])"
    by simp
  have "map timestamp ?h' = map timestamp history"
    using assms(2) ts by simp
  moreover have "length ?h' = length history"
    using assms(2) by simp
  ultimately show ?thesis using dom eq by (simp add: update_other_key)
qed

text \<open>Claim C1 ten minutes after a first sample.\<close>

theorem C1_coalesce_witness:
  "\<exists>history'.
     updatePlayerHistory ''c1'' 8 (Some 24) 600000
       [''c1'' \<mapsto> [\<lparr>timestamp = 0, count = 5\<rparr>]] ''c1'' = Some history' \<and>
     history' = [\<lparr>timestamp = 0, count = 8\<rparr>]"
  using C1_coalesce_within_interval
    [of "[''c1'' \<mapsto> [\<lparr>timestamp = 0, count = 5\<rparr>]]" "''c1''" "[\<lparr>timestamp = 0, count = 5\<rparr>]"
        600000 8 "Some 24"]
  by simp

subsection \<open>Appending and eviction\<close>

lemma recordAll_other_key:
  "k' \<noteq> k \<Longrightarrow> recordAll k cap calls m k' = m k'"
  by (induction calls arbitrary: m) (auto simp: update_other_key)

lemma spacedFrom_forget: "spacedFrom (Some t) ts \<Longrightarrow> spacedFrom None ts"
  by (cases ts) auto

lemma drop_one_tl: "drop (Suc 0) xs = tl xs"
  by (simp add: drop_Suc)

lemma evict_then_drop: "drop n (tl (h @ [s]) @ r) = drop (Suc n) (h @ s # r)"
  by (cases h) simp_all

lemma update_append_bounded:
  assumes "0 \<le> cap"
    and "length (snapshot m k) \<le> nat cap"
    and "snapshot m k = [] \<or> now - timestamp (last (snapshot m k)) \<ge> 3600000"
    and "maxHistoryOrDefault arg = cap"
  shows "snapshot (updatePlayerHistory k c arg now m) k =
           drop (length (snapshot m k) + 1 - nat cap)
             (snapshot m k @ [\<lparr>timestamp = now, count = c\<rparr>])"
proof -
  let ?h = "snapshot m k"
  let ?p = "?h @ [\<lparr>timestamp = now, count = c\<rparr>]"
  have eq: "snapshot (updatePlayerHistory k c arg now m) k =
              (if int (length ?p) > cap then tl ?p else ?p)"
    using update_append [OF assms(3), of c arg] assms(4) by (simp add: Let_def)
  show ?thesis
  proof (cases "int (length ?p) > cap")
    case True
    with assms(1,2) have d: "length ?h + 1 - nat cap = Suc 0" by simp
    show ?thesis unfolding eq d by (simp only: True if_True drop_one_tl)
  next
    case False
    with assms(1) have d: "length ?h + 1 - nat cap = 0" by simp
    show ?thesis unfolding eq d by (simp only: False if_False drop_0)
  qed
qed

lemma recordAll_closed_form:
  assumes "0 \<le> cap" and "maxHistoryOrDefault arg = cap"
  shows "length (snapshot m k) \<le> nat cap \<Longrightarrow>
         spacedFrom (newestTimestamp (snapshot m k)) (map fst calls) \<Longrightarrow>
         snapshot (recordAll k arg calls m) k =
           drop (length (snapshot m k) + length calls - nat cap)
             (snapshot m k @ map sampleOf calls)"
proof (induction calls arbitrary: m)
  case Nil
  then show ?case by simp
next
  case (Cons call calls)
  obtain now c where call: "call = (now, c)" by (cases call)
  let ?h = "snapshot m k"
  let ?s = "\<lparr>timestamp = now, count = c\<rparr>"
  let ?m1 = "updatePlayerHistory k c arg now m"
  let ?h1 = "snapshot ?m1 k"
  let ?d = "length ?h + 1 - nat cap"
  have sp: "?h = [] \<or> now - timestamp (last ?h) \<ge> 3600000"
    using Cons.prems(2) call by (auto simp: newestTimestamp_def split: if_splits)
  have rest: "spacedFrom (Some now) (map fst calls)"
    using Cons.prems(2) call by (auto simp: newestTimestamp_def split: if_splits)
  have h1: "?h1 = drop ?d (?h @ [?s])"
    using update_append_bounded [OF assms(1) Cons.prems(1) sp assms(2)] .
  have d01: "?d = 0 \<or> (?d = Suc 0 \<and> length ?h = nat cap)"
    using Cons.prems(1) by auto
  have len1: "length ?h1 \<le> nat cap"
    using h1 Cons.prems(1) by auto
  have sp1: "spacedFrom (newestTimestamp ?h1) (map fst calls)"
  proof (cases "?h1 = []")
    case True
    then show ?thesis using rest by (simp add: newestTimestamp_def spacedFrom_forget)
  next
    case False
    then have "length ?h + 1 > ?d" using h1 by auto
    then have "last ?h1 = ?s" using h1 by simp
    with False rest show ?thesis by (simp add: newestTimestamp_def)
  qed
  have "snapshot (recordAll k arg (call # calls) m) k =
          snapshot (recordAll k arg calls ?m1) k"
    using call by simp
  also have "\<dots> = drop (length ?h1 + length calls - nat cap) (?h1 @ map sampleOf calls)"
    using Cons.IH [OF len1 sp1] .
  also have "\<dots> = drop (length ?h + length (call # calls) - nat cap)
                      (?h @ map sampleOf (call # calls))"
  proof -
    have so: "sampleOf call = ?s" using call by (simp add: sampleOf_def)
    from d01 show ?thesis
    proof
      assume "?d = 0"
      then show ?thesis using h1 so by simp
    next
      assume d1: "?d = Suc 0 \<and> length ?h = nat cap"
      from d1 have dd: "?d = Suc 0" by (rule conjunct1)
      have t: "?h1 = tl (?h @ [?s])" unfolding h1 dd by (rule drop_one_tl)
      have l1: "length ?h1 = nat cap" using t d1 by simp
      have i1: "length ?h1 + length calls - nat cap = length calls"
        using l1 by simp
      have i2: "length ?h + length (call # calls) - nat cap = Suc (length calls)"
        using d1 by simp
      have m: "map sampleOf (call # calls) = ?s # map sampleOf calls"
        using so by simp
      have "drop (length ?h1 + length calls - nat cap) (?h1 @ map sampleOf calls) =
              drop (length calls) (?h1 @ map sampleOf calls)"
        by (simp only: i1)
      also have "\<dots> = drop (length calls) (tl (?h @ [?s]) @ map sampleOf calls)"
        by (simp only: t)
      also have "\<dots> = drop (Suc (length calls)) (?h @ ?s # map sampleOf calls)"
        by (rule evict_then_drop)
      also have "\<dots> = drop (length ?h + length (call # calls) - nat cap)
                          (?h @ map sampleOf (call # calls))"
        by (simp only: i2 m)
      finally show ?thesis .
    qed
  qed
  finally show ?case .
qed

text \<open>
  Claim C2 (FIFO bound). Take a capacity \<open>cap \<ge> 0\<close>, a series no longer than \<open>cap\<close>, and
  record calls on its channel id whose clock readings are each at least one sampling
  interval after the previous one (the first one after the newest stored sample, if any).
  Then every call appends exactly one sample and evicts from the front only: after the
  calls the series is the last \<open>cap\<close> elements of the old series followed by the new
  samples in call order, so its length is \<open>min (old length + number of calls) cap\<close>:
  it grows by one per call up to \<open>cap\<close> and stays there. The statement holds for every
  list of calls, hence after every prefix of a longer sequence.
\<close>

theorem C2_fifo_bound:
  assumes "maxHistoryOrDefault maxHistoryArg = cap"
    and "0 \<le> cap"
    and "length (snapshot store serverId) \<le> nat cap"
    and "spacedFrom (newestTimestamp (snapshot store serverId)) (map fst calls)"
  shows "snapshot (recordAll serverId maxHistoryArg calls store) serverId =
           drop (length (snapshot store serverId) + length calls - nat cap)
             (snapshot store serverId @ map sampleOf calls)
         \<and> length (snapshot (recordAll serverId maxHistoryArg calls store) serverId) =
             min (length (snapshot store serverId) + length calls) (nat cap)
         \<and> (\<forall>other. other \<noteq> serverId \<longrightarrow>
               recordAll serverId maxHistoryArg calls store other = store other)"
proof -
  have cf: "snapshot (recordAll serverId maxHistoryArg calls store) serverId =
           drop (length (snapshot store serverId) + length calls - nat cap)
             (snapshot store serverId @ map sampleOf calls)"
    using recordAll_closed_form [OF assms(2) assms(1) assms(3) assms(4)] .
  have len: "length (drop (length (snapshot store serverId) + length calls - nat cap)
             (snapshot store serverId @ map sampleOf calls)) =
             min (length (snapshot store serverId) + length calls) (nat cap)"
    by auto
  show ?thesis unfolding cf using len by (simp add: recordAll_other_key)
qed

text \<open>Claim C2 at three hourly calls with capacity two, from the empty store.\<close>

theorem C2_fifo_bound_witness:
  "snapshot (recordAll ''c1'' (Some 2) [(0, 5), (3600000, 8), (7200000, 3)] Map.empty) ''c1'' =
     [\<lparr>timestamp = 3600000, count = 8\<rparr>, \<lparr>timestamp = 7200000, count = 3\<rparr>]
   \<and> length (snapshot (recordAll ''c1'' (Some 2) [(0, 5), (3600000, 8), (7200000, 3)] Map.empty) ''c1'') = 2"
  using C2_fifo_bound [of "Some 2" 2 Map.empty "''c1''" "[(0, 5), (3600000, 8), (7200000, 3)]"]
  by (simp add: snapshot_def newestTimestamp_def sampleOf_def maxHistoryOrDefault_def)

subsection \<open>The spacing invariant\<close>

lemma spaced_snoc:
  "spaced (h @ [s]) = (spaced h \<and> (h = [] \<or> timestamp s - timestamp (last h) \<ge> 3600000))"
  by (induction h rule: spaced.induct) auto

lemma spaced_tl: "spaced h \<Longrightarrow> spaced (tl h)"
  by (induction h rule: spaced.induct) auto

lemma spaced_overwrite_newest:
  assumes "h \<noteq> []"
  shows "spaced (butlast h @ [(last h)\<lparr>count := c\<rparr>]) = spaced h"
proof -
  have "spaced h = spaced (butlast h @ [last h])" using assms by simp
  also have "\<dots> = spaced (butlast h @ [(last h)\<lparr>count := c\<rparr>])"
    unfolding spaced_snoc by simp
  finally show ?thesis by simp
qed

lemma update_cases:
  "snapshot (updatePlayerHistory k c cap now m) k =
     (if snapshot m k = [] \<or> now - timestamp (last (snapshot m k)) \<ge> 3600000
      then (let pushed = snapshot m k @ [\<lparr>timestamp = now, count = c\<rparr>]
            in if int (length pushed) > maxHistoryOrDefault cap then tl pushed else pushed)
      else butlast (snapshot m k) @ [(last (snapshot m k))\<lparr>count := c\<rparr>])"
proof (cases "snapshot m k = [] \<or> now - timestamp (last (snapshot m k)) \<ge> 3600000")
  case True
  then show ?thesis using update_append [OF True] by simp
next
  case False
  then have "snapshot m k \<noteq> []" and "now - timestamp (last (snapshot m k)) < 3600000"
    by auto
  then show ?thesis using update_coalesce False by simp
qed

lemma update_preserves_spaced:
  assumes "spaced (snapshot m k)"
  shows "spaced (snapshot (updatePlayerHistory k' c cap now m) k)"
proof (cases "k = k'")
  case False
  then have "snapshot (updatePlayerHistory k' c cap now m) k = snapshot m k"
    by (simp add: snapshot_def update_other_key)
  with assms show ?thesis by simp
next
  case True
  let ?h = "snapshot m k"
  let ?p = "?h @ [\<lparr>timestamp = now, count = c\<rparr>]"
  show ?thesis
  proof (cases "?h = [] \<or> now - timestamp (last ?h) \<ge> 3600000")
    case append: True
    then have p: "spaced ?p" using assms by (auto simp: spaced_snoc)
    then have "spaced (tl ?p)" by (rule spaced_tl)
    with p show ?thesis
      unfolding True [symmetric] update_cases using append by (simp add: Let_def)
  next
    case coalesce: False
    then have "?h \<noteq> []" by auto
    then have "spaced (butlast ?h @ [(last ?h)\<lparr>count := c\<rparr>])"
      using assms by (simp add: spaced_overwrite_newest)
    then show ?thesis
      unfolding True [symmetric] update_cases using coalesce by simp
  qed
qed

lemma init_preserves_spaced:
  "spaced (snapshot m k) \<Longrightarrow> spaced (snapshot (initializePlayerHistory k' m) k)"
  by (cases "k = k'") (auto simp: initializePlayerHistory_def snapshot_def)

lemma applyCall_preserves_spaced:
  "spaced (snapshot m k) \<Longrightarrow> spaced (snapshot (applyCall call m) k)"
  by (cases call) (simp_all add: update_preserves_spaced init_preserves_spaced)

lemma applyCalls_preserve_spaced:
  "spaced (snapshot m k) \<Longrightarrow> spaced (snapshot (applyCalls calls m) k)"
  by (induction calls arbitrary: m) (simp_all add: applyCall_preserves_spaced)

text \<open>
  Claim C9 (spacing invariant). In every series reachable from the empty store by any
  sequence of calls of the two writers (any keys, any capacities, any clock readings),
  consecutive samples are at least 3600000 ms apart. Every record call preserves the
  invariant on every series; a call on a non-empty series whose newest sample is less
  than one interval old appends nothing: it keeps the length and all timestamps. So a
  sample is appended only when the series is empty or its newest sample is at least one
  interval old.
\<close>

theorem C9_spacing_invariant:
  "spaced (snapshot (applyCalls calls Map.empty) serverId)
   \<and> (spaced (snapshot store k) \<longrightarrow>
        spaced (snapshot (updatePlayerHistory k' playerCount maxHistoryArg currentTime store) k))
   \<and> (snapshot store k \<noteq> [] \<and>
        currentTime - timestamp (last (snapshot store k)) < 3600000 \<longrightarrow>
        length (snapshot (updatePlayerHistory k playerCount maxHistoryArg currentTime store) k)
          = length (snapshot store k) \<and>
        map timestamp (snapshot (updatePlayerHistory k playerCount maxHistoryArg currentTime store) k)
          = map timestamp (snapshot store k))"
proof -
  have "spaced (snapshot Map.empty serverId)" by (simp add: snapshot_def)
  then have reach: "spaced (snapshot (applyCalls calls Map.empty) serverId)"
    by (rule applyCalls_preserve_spaced)
  have keep: "length (snapshot (updatePlayerHistory k playerCount maxHistoryArg currentTime store) k)
          = length (snapshot store k) \<and>
        map timestamp (snapshot (updatePlayerHistory k playerCount maxHistoryArg currentTime store) k)
          = map timestamp (snapshot store k)"
    if ne: "snapshot store k \<noteq> []"
      and young: "currentTime - timestamp (last (snapshot store k)) < 3600000"
  proof -
    let ?h = "snapshot store k"
    have eq: "snapshot (updatePlayerHistory k playerCount maxHistoryArg currentTime store) k
                = butlast ?h @ [(last ?h)\<lparr>count := playerCount\<rparr>]"
      using update_coalesce [OF ne young] .
    have "map timestamp (butlast ?h @ [(last ?h)\<lparr>count := playerCount\<rparr>]) =
            map timestamp (butlast ?h @ [last ?h])"
      by simp
    then have "map timestamp (butlast ?h @ [(last ?h)\<lparr>count := playerCount\<rparr>]) = map timestamp ?h"
      using ne by simp
    moreover have "length (butlast ?h @ [(last ?h)\<lparr>count := playerCount\<rparr>]) = length ?h"
      using ne by simp
    ultimately show ?thesis unfolding eq by simp
  qed
  from reach keep show ?thesis
    using update_preserves_spaced [of store k k' playerCount maxHistoryArg currentTime]
    by blast
qed

text \<open>Claim C9 at a run that initialises, appends, coalesces and appends again.\<close>

theorem C9_spacing_witness:
  "spaced (snapshot (applyCalls
      [InitCall ''c1'', RecordCall ''c1'' 5 None 0, RecordCall ''c1'' 8 None 600000,
       RecordCall ''c1'' 3 None 7800000] Map.empty) ''c1'')
   \<and> spaced (snapshot (updatePlayerHistory ''c1'' 4 None 7800000
        [''c1'' \<mapsto> [\<lparr>timestamp = 0, count = 8\<rparr>]]) ''c1'')
   \<and> map timestamp (snapshot (updatePlayerHistory ''c1'' 8 None 600000
        [''c1'' \<mapsto> [\<lparr>timestamp = 0, count = 5\<rparr>]]) ''c1'') = [0]"
  using C9_spacing_invariant
    [of "[InitCall ''c1'', RecordCall ''c1'' 5 None 0, RecordCall ''c1'' 8 None 600000,
          RecordCall ''c1'' 3 None 7800000]" "''c1''"
        "[''c1'' \<mapsto> [\<lparr>timestamp = 0, count = 5\<rparr>]]" "''c1''" "''c1''" 8 None 600000]
    C9_spacing_invariant
    [of "[]" "''c1''"
        "[''c1'' \<mapsto> [\<lparr>timestamp = 0, count = 8\<rparr>]]" "''c1''" "''c1''" 4 None 7800000]
  by (simp add: snapshot_def)

section \<open>Properties of the probe\<close>

lemma probe_rejected:
  "checkServerStatus i p (Inl err) =
     ([UtilStatus i (portOrDefault p), Log LError (textProbeFailed i (portOrDefault p) err)],
      Inr (Offline (message err)))"
  by (simp add: checkServerStatus_def Let_def)

lemma probe_resolved:
  "checkServerStatus i p (Inr r) =
     ([UtilStatus i (portOrDefault p)],
      Inr (Online (players_online r) (players_max r) (version_name r) (motd_clean r)
             (roundTripLatency r)))"
  by (simp add: checkServerStatus_def Let_def)

lemma probe_total: "\<exists>status. snd (checkServerStatus i p outcome) = Inr status"
  by (cases outcome) (simp_all add: probe_rejected probe_resolved)

lemma probe_steps: "steps (fst (checkServerStatus i p outcome)) = [UtilStatus i (portOrDefault p)]"
  by (cases outcome) (simp_all add: probe_rejected probe_resolved steps_def)

text \<open>
  Claim C3 (the probe never raises). Whatever the status query does, the promise of
  \<open>checkServerStatus\<close> resolves: if the query throws, the result is the offline object
  carrying the message of the thrown error; if it resolves, the result is the online
  object with the current players, the maximum, the version name, the clean MOTD and the
  round-trip latency of the response.
\<close>

theorem C3_probe_never_raises:
  "snd (checkServerStatus ipArg portArg (Inl err)) = Inr (Offline (message err))
   \<and> snd (checkServerStatus ipArg portArg (Inr result)) =
       Inr (Online (players_online result) (players_max result) (version_name result)
              (motd_clean result) (roundTripLatency result))
   \<and> (\<forall>outcome. \<exists>status. snd (checkServerStatus ipArg portArg outcome) = Inr status)"
  using probe_total by (simp add: probe_rejected probe_resolved)

section \<open>Properties of the chart\<close>

text \<open>
  Claim C5 (chart render). For a series of fewer than two samples \<open>generatePlayerChart\<close>
  returns none and does not call the raster backend, whatever the backend is. For a series
  of at least two samples and any colour argument (also an absent one) it calls the backend
  once, on the request built from the series and the colour, and returns what the backend
  yields; with the backend of the spec, which encodes a PNG stream, that is a buffer that
  starts with the PNG signature, hence a non-empty one.
\<close>

theorem C5_chart_render:
  "(length (snapshot histories serverId) < 2 \<longrightarrow>
      generatePlayerChart raster serverId colorArg histories = ([], Inr None))
   \<and> (2 \<le> length (snapshot histories serverId) \<longrightarrow>
       fst (generatePlayerChart raster serverId colorArg histories) =
         [ChartToBuffer (chartRequest (snapshot histories serverId) (colorOrDefault colorArg))] \<and>
       snd (generatePlayerChart raster serverId colorArg histories) =
         map_sum id Some
           (raster (chartRequest (snapshot histories serverId) (colorOrDefault colorArg))))
   \<and> (2 \<le> length (snapshot histories serverId) \<longrightarrow>
       (\<exists>png. generatePlayerChart (pngBackend body) serverId colorArg histories =
                ([ChartToBuffer (chartRequest (snapshot histories serverId)
                    (colorOrDefault colorArg))],
                 Inr (Some png)) \<and>
              png \<noteq> [] \<and> take 8 png = pngSignature))"
  by (simp add: generatePlayerChart_def Let_def pngBackend_def pngSignature_def split: sum.splits)

text \<open>Claim C5 at the empty store and at a series of two samples.\<close>

theorem C5_chart_render_witness:
  "generatePlayerChart (pngBackend (\<lambda>request. [])) ''1001'' (Some ''#3498db'') Map.empty =
     ([], Inr None)
   \<and> (\<exists>png. generatePlayerChart (pngBackend (\<lambda>request. [])) ''1001'' (Some ''#3498db'') twoSamples =
              ([ChartToBuffer (chartRequest (snapshot twoSamples ''1001'')
                  (colorOrDefault (Some ''#3498db'')))],
               Inr (Some png)) \<and>
            png \<noteq> [] \<and> take 8 png = pngSignature)"
  using C5_chart_render [of Map.empty "''1001''" "pngBackend (\<lambda>request. [])" "Some ''#3498db''"]
    C5_chart_render [of twoSamples "''1001''" "pngBackend (\<lambda>request. [])" "Some ''#3498db''"
      "\<lambda>request. []"]
  by (simp add: snapshot_def twoSamples_def)

section \<open>Reading the calls of a run\<close>

lemma steps_append: "steps (xs @ ys) = steps xs @ steps ys"
  by (simp add: steps_def)

lemma steps_Cons: "steps (e # es) = (if isLog e then steps es else e # steps es)"
  by (simp add: steps_def)

lemma steps_Nil: "steps [] = []"
  by (simp add: steps_def)

lemma filter_steps:
  assumes "\<And>e. P e \<Longrightarrow> \<not> isLog e"
  shows "filter P evs = filter P (steps evs)"
proof -
  have "(\<lambda>e. \<not> isLog e \<and> P e) = P" using assms by auto
  then show ?thesis by (simp add: steps_def)
qed

lemma historyWrite_steps: "filter isHistoryWrite evs = filter isHistoryWrite (steps evs)"
  by (rule filter_steps) (erule isHistoryWrite.elims, simp_all)

lemma render_steps: "filter isRender evs = filter isRender (steps evs)"
  by (rule filter_steps) (erule isRender.elims, simp_all)

lemma edit_steps: "filter isEdit evs = filter isEdit (steps evs)"
  by (rule filter_steps) (erule isEdit.elims, simp_all)

lemma send_steps: "filter isSend evs = filter isSend (steps evs)"
  by (rule filter_steps) (erule isSend.elims, simp_all)

lemma reply_steps: "filter isReply evs = filter isReply (steps evs)"
  by (rule filter_steps) (erule isReply.elims, simp_all)

lemma probe_steps_filter: "filter isProbe evs = filter isProbe (steps evs)"
  by (rule filter_steps) (erule isProbe.elims, simp_all)

section \<open>The pieces of a tick\<close>

lemma probe_resumed:
  "UtilStatus i (portOrDefault p) # fst (checkServerStatusResumed i p outcome) =
     fst (checkServerStatus i p outcome)"
  "snd (checkServerStatusResumed i p outcome) = snd (checkServerStatus i p outcome)"
  by (cases outcome; simp add: checkServerStatusResumed_def probe_rejected probe_resolved)+

lemma record_steps:
  "steps (fst (recordIfOnline env sc status s)) =
     (if online status
      then [CallInitializePlayerHistory (channelId sc),
            CallUpdatePlayerHistory (channelId sc) (players status) (historyHours (chart (display sc)))]
      else [])"
  by (simp add: recordIfOnline_def steps_def)

lemma record_offline: "\<not> online status \<Longrightarrow> recordIfOnline env sc status s = ([], s)"
  by (simp add: recordIfOnline_def)

lemma record_handles: "statusMessages (snd (recordIfOnline env sc status s)) = statusMessages s"
  by (simp add: recordIfOnline_def)

lemma callChart_steps:
  "steps (fst (callChart raster sc h)) =
     CallGeneratePlayerChart (channelId sc) (chart_color (chart (display sc))) #
     (if length (snapshot h (channelId sc)) < 2 then []
      else [ChartToBuffer (chartRequest (snapshot h (channelId sc))
              (colorOrDefault (chart_color (chart (display sc)))))])"
  by (simp add: callChart_def generatePlayerChart_def Let_def steps_def)

lemma attachChart_steps: "steps (fst (attachChart v promise emb)) = []"
  by (simp add: attachChart_def steps_def split: sum.splits option.splits)

lemma issue_steps:
  "fst (issueDelivery sc chan pl s) =
     [case statusMessages s (channelId sc) of
        Some existingMessage \<Rightarrow> MessageEdit existingMessage pl
      | None \<Rightarrow> ChannelSend chan pl]"
  by (simp add: issueDelivery_def split: option.splits)

lemma issue_cont:
  "snd (issueDelivery sc chan pl s) =
     (case statusMessages s (channelId sc) of Some existingMessage \<Rightarrow> AwaitEdit | None \<Rightarrow> AwaitSend)"
  by (simp add: issueDelivery_def split: option.splits)

lemma settle_edit:
  "fst (snd (afterEdit env sc s)) = Inr (Inr ())"
  "snd (snd (afterEdit env sc s)) = s"
  "steps (fst (afterEdit env sc s)) = []"
  by (simp_all add: afterEdit_def steps_def split: sum.splits)

lemma settle_send:
  "fst (snd (afterSend env sc s)) = Inr (Inr ())"
  "playerHistory (snd (snd (afterSend env sc s))) = playerHistory s"
  "statusMessages (snd (snd (afterSend env sc s))) =
     (case sent env of Inl err \<Rightarrow> statusMessages s
      | Inr msg \<Rightarrow> (statusMessages s)(channelId sc \<mapsto> msg))"
  "steps (fst (afterSend env sc s)) = []"
  by (simp_all add: afterSend_def steps_def split: sum.splits)

lemma settle_issued:
  "fst (snd (resume env config sc (snd (issueDelivery sc chan pl s0)) s)) = Inr (Inr ())"
  "playerHistory (snd (snd (resume env config sc (snd (issueDelivery sc chan pl s0)) s))) =
     playerHistory s"
  "steps (fst (resume env config sc (snd (issueDelivery sc chan pl s0)) s)) = []"
  "statusMessages (snd (snd (resume env config sc (snd (issueDelivery sc chan pl s0)) s))) =
     (case statusMessages s0 (channelId sc) of
        Some existingMessage \<Rightarrow> statusMessages s
      | None \<Rightarrow> (case sent env of Inl err \<Rightarrow> statusMessages s
                 | Inr msg \<Rightarrow> (statusMessages s)(channelId sc \<mapsto> msg)))"
  by (simp_all add: issue_cont settle_edit settle_send split: option.splits)

lemma thenResume_settled:
  "thenResume env config sc others (evs, Inr settled, s) = (evs, Inr settled, s)"
  by (simp add: thenResume_def)

lemma thenResume_suspended:
  "thenResume env config sc others (evs, Inl cont, s) =
     (evs @ fst (resume env config sc cont (others s)),
      fst (snd (resume env config sc cont (others s))),
      snd (snd (resume env config sc cont (others s))))"
  by (simp add: thenResume_def split_beta)

lemma afterFetch_none:
  "fetchOrNull (fetched env) = None \<Longrightarrow>
   afterFetch env sc s = ([Log LError (textChannelNotFound sc)], Inr (Inr ()), s)"
  by (simp add: afterFetch_def)

lemma afterFetch_some:
  "fetchOrNull (fetched env) = Some chan \<Longrightarrow>
   afterFetch env sc s =
     ([UtilStatus (ip sc) (portOrDefault (port sc))], Inl (AwaitStatus chan), s)"
  by (simp add: afterFetch_def)

lemma afterStatus_rejected:
  assumes "snd (checkServerStatus (ip sc) (port sc) (queried env)) = Inr status"
    and "statusEmbed (validate env) config sc status (now_embed env) (now_next env) = Inl err"
  shows "afterStatus env config sc chan s =
           (fst (checkServerStatusResumed (ip sc) (port sc) (queried env)) @
              fst (recordIfOnline env sc status s) @ [NewEmbedBuilder],
            Inr (Inl err), snd (recordIfOnline env sc status s))"
proof -
  obtain evs where "checkServerStatusResumed (ip sc) (port sc) (queried env) = (evs, Inr status)"
    using assms(1) probe_resumed(2) [of "ip sc" "port sc" "queried env"]
    by (cases "checkServerStatusResumed (ip sc) (port sc) (queried env)") auto
  then show ?thesis using assms(2) by (simp add: afterStatus_def split_beta)
qed

lemma afterStatus_plain:
  assumes "snd (checkServerStatus (ip sc) (port sc) (queried env)) = Inr status"
    and "statusEmbed (validate env) config sc status (now_embed env) (now_next env) = Inr emb"
    and "\<not> chartWanted sc status"
  shows "afterStatus env config sc chan s =
           (fst (checkServerStatusResumed (ip sc) (port sc) (queried env)) @
              fst (recordIfOnline env sc status s) @ [NewEmbedBuilder] @
              fst (issueDelivery sc chan \<lparr>embeds = [emb], files = []\<rparr>
                     (snd (recordIfOnline env sc status s))),
            Inl (snd (issueDelivery sc chan \<lparr>embeds = [emb], files = []\<rparr>
                     (snd (recordIfOnline env sc status s)))),
            snd (recordIfOnline env sc status s))"
proof -
  obtain evs where "checkServerStatusResumed (ip sc) (port sc) (queried env) = (evs, Inr status)"
    using assms(1) probe_resumed(2) [of "ip sc" "port sc" "queried env"]
    by (cases "checkServerStatusResumed (ip sc) (port sc) (queried env)") auto
  then show ?thesis using assms(2,3) by (simp add: afterStatus_def split_beta)
qed

lemma afterStatus_chart:
  assumes "snd (checkServerStatus (ip sc) (port sc) (queried env)) = Inr status"
    and "statusEmbed (validate env) config sc status (now_embed env) (now_next env) = Inr emb"
    and "chartWanted sc status"
  shows "afterStatus env config sc chan s =
           (fst (checkServerStatusResumed (ip sc) (port sc) (queried env)) @
              fst (recordIfOnline env sc status s) @ [NewEmbedBuilder] @
              fst (callChart (toBuffer env) sc (playerHistory (snd (recordIfOnline env sc status s)))),
            Inl (AwaitChart chan emb
                   (snd (callChart (toBuffer env) sc
                           (playerHistory (snd (recordIfOnline env sc status s)))))),
            snd (recordIfOnline env sc status s))"
proof -
  obtain evs where "checkServerStatusResumed (ip sc) (port sc) (queried env) = (evs, Inr status)"
    using assms(1) probe_resumed(2) [of "ip sc" "port sc" "queried env"]
    by (cases "checkServerStatusResumed (ip sc) (port sc) (queried env)") auto
  then show ?thesis using assms(2,3) by (simp add: afterStatus_def split_beta)
qed

lemma afterChart_issue:
  "afterChart env sc chan emb promise s =
     (fst (attachChart (validate env) promise emb) @
        fst (issueDelivery sc chan
               \<lparr>embeds = [snd (snd (attachChart (validate env) promise emb))],
                files = fst (snd (attachChart (validate env) promise emb))\<rparr> s),
      Inl (snd (issueDelivery sc chan
               \<lparr>embeds = [snd (snd (attachChart (validate env) promise emb))],
                files = fst (snd (attachChart (validate env) promise emb))\<rparr> s)),
      s)"
  by (simp add: afterChart_def split_beta)

section \<open>A tick among other activity, path by path\<close>

lemma tick_unresolved:
  assumes "fetchOrNull (fetched env) = None"
  shows "tickAmong env config sc o1 o2 o3 o4 s =
           ([ChannelsFetch (channelId sc), Log LError (textChannelNotFound sc)],
            Inr (Inr ()), o1 s)"
  by (simp add: tickAmong_def tickStart_def thenResume_suspended thenResume_settled
        afterFetch_none [OF assms])

lemma tick_rejected:
  assumes "fetchOrNull (fetched env) = Some chan"
    and "snd (checkServerStatus (ip sc) (port sc) (queried env)) = Inr status"
    and "statusEmbed (validate env) config sc status (now_embed env) (now_next env) = Inl err"
  shows "tickAmong env config sc o1 o2 o3 o4 s =
           (ChannelsFetch (channelId sc) # fst (checkServerStatus (ip sc) (port sc) (queried env)) @
              fst (recordIfOnline env sc status (o2 (o1 s))) @ [NewEmbedBuilder],
            Inr (Inl err), snd (recordIfOnline env sc status (o2 (o1 s))))"
  unfolding probe_resumed(1) [of "ip sc" "port sc" "queried env", symmetric]
  by (simp add: tickAmong_def tickStart_def thenResume_suspended thenResume_settled
        afterFetch_some [OF assms(1)] afterStatus_rejected [OF assms(2,3)])

lemma tick_plain:
  assumes "fetchOrNull (fetched env) = Some chan"
    and "snd (checkServerStatus (ip sc) (port sc) (queried env)) = Inr status"
    and "statusEmbed (validate env) config sc status (now_embed env) (now_next env) = Inr emb"
    and "\<not> chartWanted sc status"
  shows "tickAmong env config sc o1 o2 o3 o4 s =
     (let s2 = snd (recordIfOnline env sc status (o2 (o1 s)));
          pl = \<lparr>embeds = [emb], files = []\<rparr>;
          fin = resume env config sc (snd (issueDelivery sc chan pl s2)) (o3 s2)
      in (ChannelsFetch (channelId sc) # fst (checkServerStatus (ip sc) (port sc) (queried env)) @
            fst (recordIfOnline env sc status (o2 (o1 s))) @ [NewEmbedBuilder] @
            fst (issueDelivery sc chan pl s2) @ fst fin,
          Inr (Inr ()), snd (snd fin)))"
  unfolding probe_resumed(1) [of "ip sc" "port sc" "queried env", symmetric]
  by (simp add: tickAmong_def tickStart_def thenResume_suspended thenResume_settled Let_def
        afterFetch_some [OF assms(1)] afterStatus_plain [OF assms(2,3,4)] settle_issued(1))

lemma tick_chart:
  assumes "fetchOrNull (fetched env) = Some chan"
    and "snd (checkServerStatus (ip sc) (port sc) (queried env)) = Inr status"
    and "statusEmbed (validate env) config sc status (now_embed env) (now_next env) = Inr emb"
    and "chartWanted sc status"
  shows "tickAmong env config sc o1 o2 o3 o4 s =
     (let s2 = snd (recordIfOnline env sc status (o2 (o1 s)));
          c = callChart (toBuffer env) sc (playerHistory s2);
          a = attachChart (validate env) (snd c) emb;
          pl = \<lparr>embeds = [snd (snd a)], files = fst (snd a)\<rparr>;
          s3 = o3 s2;
          fin = resume env config sc (snd (issueDelivery sc chan pl s3)) (o4 s3)
      in (ChannelsFetch (channelId sc) # fst (checkServerStatus (ip sc) (port sc) (queried env)) @
            fst (recordIfOnline env sc status (o2 (o1 s))) @ [NewEmbedBuilder] @
            fst c @ fst a @ fst (issueDelivery sc chan pl s3) @ fst fin,
          Inr (Inr ()), snd (snd fin)))"
  unfolding probe_resumed(1) [of "ip sc" "port sc" "queried env", symmetric]
  by (simp add: tickAmong_def tickStart_def thenResume_suspended thenResume_settled Let_def
        afterFetch_some [OF assms(1)] afterStatus_chart [OF assms(2,3,4)] afterChart_issue
        settle_issued(1))

text \<open>Every tick has settled after its four resumptions, whatever happens around it.\<close>

lemma tick_settles:
  "\<exists>settled. fst (snd (tickAmong env config sc o1 o2 o3 o4 s)) = Inr settled"
proof (cases "fetchOrNull (fetched env)")
  case None
  then show ?thesis by (simp add: tick_unresolved)
next
  case (Some chan)
  obtain status where st: "snd (checkServerStatus (ip sc) (port sc) (queried env)) = Inr status"
    using probe_total by blast
  show ?thesis
  proof (cases "statusEmbed (validate env) config sc status (now_embed env) (now_next env)")
    case (Inl err)
    show ?thesis by (simp add: tick_rejected [OF Some st Inl])
  next
    case (Inr emb)
    show ?thesis
      by (cases "chartWanted sc status")
         (simp_all add: tick_plain [OF Some st Inr] tick_chart [OF Some st Inr] Let_def)
  qed
qed

lemma tick_alone:
  "fst (fst (updateServerStatus env config sc s)) =
     fst (tickAmong env config sc (\<lambda>x. x) (\<lambda>x. x) (\<lambda>x. x) (\<lambda>x. x) s)"
  "snd (updateServerStatus env config sc s) =
     snd (snd (tickAmong env config sc (\<lambda>x. x) (\<lambda>x. x) (\<lambda>x. x) (\<lambda>x. x) s))"
  "Inr (snd (fst (updateServerStatus env config sc s))) =
     fst (snd (tickAmong env config sc (\<lambda>x. x) (\<lambda>x. x) (\<lambda>x. x) (\<lambda>x. x) s))"
proof -
  obtain settled where
    "fst (snd (tickAmong env config sc (\<lambda>x. x) (\<lambda>x. x) (\<lambda>x. x) (\<lambda>x. x) s)) = Inr settled"
    using tick_settles by blast
  then obtain evs s' where
    t: "tickAmong env config sc (\<lambda>x. x) (\<lambda>x. x) (\<lambda>x. x) (\<lambda>x. x) s = (evs, Inr settled, s')"
    by (cases "tickAmong env config sc (\<lambda>x. x) (\<lambda>x. x) (\<lambda>x. x) (\<lambda>x. x) s") auto
  show "fst (fst (updateServerStatus env config sc s)) =
     fst (tickAmong env config sc (\<lambda>x. x) (\<lambda>x. x) (\<lambda>x. x) (\<lambda>x. x) s)"
    and "snd (updateServerStatus env config sc s) =
     snd (snd (tickAmong env config sc (\<lambda>x. x) (\<lambda>x. x) (\<lambda>x. x) (\<lambda>x. x) s))"
    and "Inr (snd (fst (updateServerStatus env config sc s))) =
     fst (snd (tickAmong env config sc (\<lambda>x. x) (\<lambda>x. x) (\<lambda>x. x) (\<lambda>x. x) s))"
    by (simp_all add: updateServerStatus_def t)
qed

lemma delivery_not_log [simp]:
  "\<not> isLog (case found of None \<Rightarrow> ChannelSend chan pl | Some existingMessage \<Rightarrow> MessageEdit existingMessage pl')"
  by (cases found) simp_all

lemma probe_head:
  "\<exists>more. fst (checkServerStatus i p outcome) = UtilStatus i (portOrDefault p) # more"
  by (cases outcome) (simp_all add: probe_rejected probe_resolved)

lemma not_wanted_offline: "\<not> online status \<Longrightarrow> \<not> chartWanted sc status"
  by (simp add: chartWanted_def)

text \<open>The calls of a tick whose channel is resolved and whose embed is built.\<close>

lemma tick_steps:
  assumes "fetchOrNull (fetched env) = Some chan"
    and "snd (checkServerStatus (ip sc) (port sc) (queried env)) = Inr status"
    and "statusEmbed (validate env) config sc status (now_embed env) (now_next env) = Inr emb"
  shows "steps (fst (tickAmong env config sc o1 o2 o3 o4 s)) =
     (let s2 = snd (recordIfOnline env sc status (o2 (o1 s)));
          wanted = chartWanted sc status;
          a = attachChart (validate env)
                (snd (callChart (toBuffer env) sc (playerHistory s2))) emb;
          pl = (if wanted then \<lparr>embeds = [snd (snd a)], files = fst (snd a)\<rparr>
                else \<lparr>embeds = [emb], files = []\<rparr>);
          s3 = (if wanted then o3 s2 else s2)
      in [ChannelsFetch (channelId sc), UtilStatus (ip sc) (portOrDefault (port sc))] @
         (if online status
          then [CallInitializePlayerHistory (channelId sc),
                CallUpdatePlayerHistory (channelId sc) (players status)
                  (historyHours (chart (display sc)))]
          else []) @
         [NewEmbedBuilder] @
         (if wanted
          then CallGeneratePlayerChart (channelId sc) (chart_color (chart (display sc))) #
            (if length (snapshot (playerHistory s2) (channelId sc)) < 2 then []
             else [ChartToBuffer (chartRequest (snapshot (playerHistory s2) (channelId sc))
                     (colorOrDefault (chart_color (chart (display sc)))))])
          else []) @
         [case statusMessages s3 (channelId sc) of
            Some existingMessage \<Rightarrow> MessageEdit existingMessage pl
          | None \<Rightarrow> ChannelSend chan pl])"
proof (cases "chartWanted sc status")
  case True
  show ?thesis
    unfolding tick_chart [OF assms True] Let_def fst_conv steps_append steps_Cons
    by (simp add: True probe_steps record_steps callChart_steps attachChart_steps issue_steps
          settle_issued(3) steps_Nil steps_Cons)
next
  case False
  show ?thesis
    unfolding tick_plain [OF assms False] Let_def fst_conv steps_append steps_Cons
    by (simp add: False probe_steps record_steps issue_steps settle_issued(3) steps_Nil steps_Cons)
qed

lemma tick_steps_rejected:
  assumes "fetchOrNull (fetched env) = Some chan"
    and "snd (checkServerStatus (ip sc) (port sc) (queried env)) = Inr status"
    and "statusEmbed (validate env) config sc status (now_embed env) (now_next env) = Inl err"
  shows "steps (fst (tickAmong env config sc o1 o2 o3 o4 s)) =
     [ChannelsFetch (channelId sc), UtilStatus (ip sc) (portOrDefault (port sc))] @
     (if online status
      then [CallInitializePlayerHistory (channelId sc),
            CallUpdatePlayerHistory (channelId sc) (players status)
              (historyHours (chart (display sc)))]
      else []) @
     [NewEmbedBuilder]"
  unfolding tick_rejected [OF assms] fst_conv steps_append steps_Cons
  by (simp add: probe_steps record_steps steps_Nil)

lemma tick_history:
  assumes "fetchOrNull (fetched env) = Some chan"
    and "snd (checkServerStatus (ip sc) (port sc) (queried env)) = Inr status"
  shows "playerHistory (snd (updateServerStatus env config sc s)) =
           playerHistory (snd (recordIfOnline env sc status s))"
proof (cases "statusEmbed (validate env) config sc status (now_embed env) (now_next env)")
  case (Inl err)
  show ?thesis unfolding tick_alone(2) by (simp add: tick_rejected [OF assms Inl])
next
  case (Inr emb)
  show ?thesis unfolding tick_alone(2)
    by (cases "chartWanted sc status")
       (simp_all add: tick_plain [OF assms Inr] tick_chart [OF assms Inr] Let_def settle_issued(2))
qed

section \<open>Properties of the scheduled tick\<close>

text \<open>
  Claim C4 (offline ticks leave the history alone). In a tick whose probe result is the
  offline object, neither \<open>initializePlayerHistory\<close> nor \<open>updatePlayerHistory\<close> is
  called and the history of every channel id, the target's included, is the same after
  the tick as before it; and neither \<open>generatePlayerChart\<close> nor the raster backend is
  called.
\<close>

theorem C4_offline_tick_frame:
  assumes "snd (checkServerStatus (ip serverConfig) (port serverConfig) (queried env)) =
             Inr (Offline errorMessage)"
  shows "playerHistory (snd (updateServerStatus env config serverConfig s)) = playerHistory s
     \<and> filter isHistoryWrite (fst (fst (updateServerStatus env config serverConfig s))) = []
     \<and> filter isRender (fst (fst (updateServerStatus env config serverConfig s))) = []"
proof (cases "fetchOrNull (fetched env)")
  case None
  show ?thesis unfolding tick_alone(1,2) tick_unresolved [OF None] by simp
next
  case (Some chan)
  have nw: "\<not> chartWanted serverConfig (Offline errorMessage)"
    by (simp add: chartWanted_def)
  have h: "playerHistory (snd (updateServerStatus env config serverConfig s)) = playerHistory s"
    unfolding tick_history [OF Some assms] by (simp add: record_offline)
  show ?thesis
  proof (cases "statusEmbed (validate env) config serverConfig (Offline errorMessage)
                  (now_embed env) (now_next env)")
    case (Inl err)
    show ?thesis
      unfolding historyWrite_steps [of "fst (fst (updateServerStatus env config serverConfig s))"]
        render_steps [of "fst (fst (updateServerStatus env config serverConfig s))"]
      unfolding tick_alone(1) tick_steps_rejected [OF Some assms Inl]
      using h by simp
  next
    case (Inr emb)
    show ?thesis
      unfolding historyWrite_steps [of "fst (fst (updateServerStatus env config serverConfig s))"]
        render_steps [of "fst (fst (updateServerStatus env config serverConfig s))"]
      unfolding tick_alone(1) tick_steps [OF Some assms Inr]
      using h nw by (simp add: Let_def split: option.splits)
  qed
qed

text \<open>Claim C4 at a tick whose status query is refused, with two samples stored.\<close>

theorem C4_offline_tick_witness:
  "playerHistory (snd (updateServerStatus offlineEnv exampleConfig exampleServer chartedState)) =
     playerHistory chartedState
   \<and> filter isHistoryWrite (fst (fst (updateServerStatus offlineEnv exampleConfig exampleServer chartedState))) = []
   \<and> filter isRender (fst (fst (updateServerStatus offlineEnv exampleConfig exampleServer chartedState))) = []"
proof -
  have "snd (checkServerStatus (ip exampleServer) (port exampleServer) (queried offlineEnv)) =
          Inr (Offline ''connect ECONNREFUSED'')"
    by (simp add: offlineEnv_def onlineEnv_def probe_rejected)
  then show ?thesis by (rule C4_offline_tick_frame)
qed

lemma tick_prefix:
  assumes "fetchOrNull (fetched env) = Some chan"
  shows "\<exists>rest. fst (tickAmong env config sc o1 o2 o3 o4 s) =
           ChannelsFetch (channelId sc) # UtilStatus (ip sc) (portOrDefault (port sc)) # rest"
proof -
  obtain status where st: "snd (checkServerStatus (ip sc) (port sc) (queried env)) = Inr status"
    using probe_total by blast
  obtain more where
    hd: "fst (checkServerStatus (ip sc) (port sc) (queried env)) =
           UtilStatus (ip sc) (portOrDefault (port sc)) # more"
    using probe_head by blast
  show ?thesis
  proof (cases "statusEmbed (validate env) config sc status (now_embed env) (now_next env)")
    case (Inl err)
    show ?thesis unfolding tick_rejected [OF assms st Inl] hd by simp
  next
    case (Inr emb)
    show ?thesis
    proof (cases "chartWanted sc status")
      case True
      show ?thesis unfolding tick_chart [OF assms st Inr True] Let_def hd by simp
    next
      case False
      show ?thesis unfolding tick_plain [OF assms st Inr False] Let_def hd by simp
    qed
  qed
qed

lemma fetch_precedes_probe:
  "precedes isFetch isProbe (ChannelsFetch c # UtilStatus i p # rest)"
  "\<not> precedes isProbe isFetch (ChannelsFetch c # UtilStatus i p # rest)"
  by (simp_all add: precedes_def firstIndex_def)

text \<open>
  Claim C7 as stated (the probe call comes first and precedes the channel resolution call)
  fails: in a tick of the example target the first \<open>ChannelsFetch\<close> comes before the first
  \<open>UtilStatus\<close>, not after it, and in a tick whose channel cannot be resolved there is no
  probe at all.
\<close>

theorem C7_probe_first_counterexample:
  "\<not> precedes isProbe isFetch
       (fst (fst (updateServerStatus onlineEnv exampleConfig exampleServer emptyState)))
   \<and> precedes isFetch isProbe
       (fst (fst (updateServerStatus onlineEnv exampleConfig exampleServer emptyState)))
   \<and> filter isProbe
       (fst (fst (updateServerStatus unreachableEnv exampleConfig exampleServer emptyState))) = []"
proof -
  have "fetchOrNull (fetched onlineEnv) = Some (Channel ''1001'')"
    by (simp add: onlineEnv_def fetchOrNull_def)
  then obtain rest where
    "fst (tickAmong onlineEnv exampleConfig exampleServer (\<lambda>x. x) (\<lambda>x. x) (\<lambda>x. x) (\<lambda>x. x)
            emptyState) =
       ChannelsFetch (channelId exampleServer) #
       UtilStatus (ip exampleServer) (portOrDefault (port exampleServer)) # rest"
    using tick_prefix by blast
  moreover have "fetchOrNull (fetched unreachableEnv) = None"
    by (simp add: unreachableEnv_def onlineEnv_def fetchOrNull_def)
  ultimately show ?thesis
    unfolding tick_alone(1) by (simp add: fetch_precedes_probe tick_unresolved)
qed

text \<open>
  Claim C7, amended (order of a tick). The statement is about a tick among any other
  activity: \<open>others1\<close> to \<open>others4\<close> are what the rest of the program does to the state
  while the tick is suspended. Every tick starts with the channel resolution call. If the
  channel is not resolved, that is the only call besides the log line, and the tick leaves
  the state as it found it. Otherwise the status probe is the second call. When moreover
  the embed is built, the calls are, in this order: the resolution, the probe, the two
  history calls exactly when the probe result is online, the embed construction, the
  chart calls exactly when the target is in chart mode with the chart enabled and the
  result is online (the call of \<open>generatePlayerChart\<close>, and the raster backend when the
  series, after the record, has at least two samples), and last one delivery: an edit of
  the message stored for the channel id at the moment of the lookup, or a send when none
  is stored. In every case the calls are ordered by stage.
\<close>

theorem C7_tick_order:
  "sorted (map phase (steps (fst (tickAmong env config sc others1 others2 others3 others4 s))))
   \<and> fst (fst (updateServerStatus env config sc s)) =
       fst (tickAmong env config sc (\<lambda>x. x) (\<lambda>x. x) (\<lambda>x. x) (\<lambda>x. x) s)
   \<and> (fetchOrNull (fetched env) = None \<longrightarrow>
        tickAmong env config sc others1 others2 others3 others4 s =
          ([ChannelsFetch (channelId sc), Log LError (textChannelNotFound sc)],
           Inr (Inr ()), others1 s))
   \<and> (fetchOrNull (fetched env) \<noteq> None \<longrightarrow>
        (\<exists>rest. fst (tickAmong env config sc others1 others2 others3 others4 s) =
           ChannelsFetch (channelId sc) # UtilStatus (ip sc) (portOrDefault (port sc)) # rest) \<and>
        precedes isFetch isProbe (fst (tickAmong env config sc others1 others2 others3 others4 s)))
   \<and> (fetchOrNull (fetched env) = Some chan \<and>
       snd (checkServerStatus (ip sc) (port sc) (queried env)) = Inr status \<and>
       statusEmbed (validate env) config sc status (now_embed env) (now_next env) = Inr emb \<longrightarrow>
        steps (fst (tickAmong env config sc others1 others2 others3 others4 s)) =
          (let s2 = snd (recordIfOnline env sc status (others2 (others1 s)));
               wanted = chartWanted sc status;
               a = attachChart (validate env)
                     (snd (callChart (toBuffer env) sc (playerHistory s2))) emb;
               pl = (if wanted then \<lparr>embeds = [snd (snd a)], files = fst (snd a)\<rparr>
                     else \<lparr>embeds = [emb], files = []\<rparr>);
               s3 = (if wanted then others3 s2 else s2)
           in [ChannelsFetch (channelId sc), UtilStatus (ip sc) (portOrDefault (port sc))] @
              (if online status
               then [CallInitializePlayerHistory (channelId sc),
                     CallUpdatePlayerHistory (channelId sc) (players status)
                       (historyHours (chart (display sc)))]
               else []) @
              [NewEmbedBuilder] @
              (if wanted
               then CallGeneratePlayerChart (channelId sc) (chart_color (chart (display sc))) #
                 (if length (snapshot (playerHistory s2) (channelId sc)) < 2 then []
                  else [ChartToBuffer (chartRequest (snapshot (playerHistory s2) (channelId sc))
                          (colorOrDefault (chart_color (chart (display sc)))))])
               else []) @
              [case statusMessages s3 (channelId sc) of
                 Some existingMessage \<Rightarrow> MessageEdit existingMessage pl
               | None \<Rightarrow> ChannelSend chan pl]))"
proof -
  let ?T = "tickAmong env config sc others1 others2 others3 others4 s"
  have srt: "sorted (map phase (steps (fst ?T)))"
  proof (cases "fetchOrNull (fetched env)")
    case None
    show ?thesis unfolding tick_unresolved [OF None] by (simp add: steps_def)
  next
    case (Some found)
    obtain probed where st: "snd (checkServerStatus (ip sc) (port sc) (queried env)) = Inr probed"
      using probe_total by blast
    show ?thesis
    proof (cases "statusEmbed (validate env) config sc probed (now_embed env) (now_next env)")
      case (Inl err)
      show ?thesis unfolding tick_steps_rejected [OF Some st Inl] by simp
    next
      case (Inr built)
      show ?thesis unfolding tick_steps [OF Some st Inr]
        by (auto simp: Let_def split: option.splits)
    qed
  qed
  have alone: "fst (fst (updateServerStatus env config sc s)) =
       fst (tickAmong env config sc (\<lambda>x. x) (\<lambda>x. x) (\<lambda>x. x) (\<lambda>x. x) s)"
    by (rule tick_alone(1))
  have unres: "fetchOrNull (fetched env) = None \<longrightarrow>
        ?T = ([ChannelsFetch (channelId sc), Log LError (textChannelNotFound sc)],
              Inr (Inr ()), others1 s)"
    using tick_unresolved by blast
  have res: "fetchOrNull (fetched env) \<noteq> None \<longrightarrow>
        (\<exists>rest. fst ?T =
           ChannelsFetch (channelId sc) # UtilStatus (ip sc) (portOrDefault (port sc)) # rest) \<and>
        precedes isFetch isProbe (fst ?T)"
  proof
    assume "fetchOrNull (fetched env) \<noteq> None"
    then obtain found where f: "fetchOrNull (fetched env) = Some found" by auto
    obtain rest where pre: "fst ?T =
           ChannelsFetch (channelId sc) # UtilStatus (ip sc) (portOrDefault (port sc)) # rest"
      using tick_prefix [OF f] by blast
    have "precedes isFetch isProbe (fst ?T)" unfolding pre by (rule fetch_precedes_probe)
    with pre show "(\<exists>rest. fst ?T =
           ChannelsFetch (channelId sc) # UtilStatus (ip sc) (portOrDefault (port sc)) # rest) \<and>
        precedes isFetch isProbe (fst ?T)" by blast
  qed
  have exact: "fetchOrNull (fetched env) = Some chan \<and>
       snd (checkServerStatus (ip sc) (port sc) (queried env)) = Inr status \<and>
       statusEmbed (validate env) config sc status (now_embed env) (now_next env) = Inr emb \<longrightarrow>
        steps (fst ?T) =
          (let s2 = snd (recordIfOnline env sc status (others2 (others1 s)));
               wanted = chartWanted sc status;
               a = attachChart (validate env)
                     (snd (callChart (toBuffer env) sc (playerHistory s2))) emb;
               pl = (if wanted then \<lparr>embeds = [snd (snd a)], files = fst (snd a)\<rparr>
                     else \<lparr>embeds = [emb], files = []\<rparr>);
               s3 = (if wanted then others3 s2 else s2)
           in [ChannelsFetch (channelId sc), UtilStatus (ip sc) (portOrDefault (port sc))] @
              (if online status
               then [CallInitializePlayerHistory (channelId sc),
                     CallUpdatePlayerHistory (channelId sc) (players status)
                       (historyHours (chart (display sc)))]
               else []) @
              [NewEmbedBuilder] @
              (if wanted
               then CallGeneratePlayerChart (channelId sc) (chart_color (chart (display sc))) #
                 (if length (snapshot (playerHistory s2) (channelId sc)) < 2 then []
                  else [ChartToBuffer (chartRequest (snapshot (playerHistory s2) (channelId sc))
                          (colorOrDefault (chart_color (chart (display sc)))))])
               else []) @
              [case statusMessages s3 (channelId sc) of
                 Some existingMessage \<Rightarrow> MessageEdit existingMessage pl
               | None \<Rightarrow> ChannelSend chan pl])"
    using tick_steps by blast
  show ?thesis
    by (intro conjI) (rule srt, rule alone, rule unres, rule res, rule exact)
qed

lemma statusEmbed_accepted: "\<exists>emb. statusEmbed acceptAll config sc status a b = Inr emb"
  by (simp add: statusEmbed_def builder_def thenDo_def acceptAll_def)

text \<open>Claim C7, amended, at a tick of the example target with two samples and a message
  stored, and at a tick whose channel is unknown.\<close>

theorem C7_tick_order_witness:
  "map phase (steps (fst (tickAmong onlineEnv exampleConfig exampleServer
       (\<lambda>x. x) (\<lambda>x. x) (\<lambda>x. x) (\<lambda>x. x) chartedState))) = [0, 1, 2, 2, 3, 4, 4, 5]
   \<and> (\<exists>pl. last (steps (fst (tickAmong onlineEnv exampleConfig exampleServer
       (\<lambda>x. x) (\<lambda>x. x) (\<lambda>x. x) (\<lambda>x. x) chartedState))) = MessageEdit (Message ''m0'') pl)
   \<and> tickAmong unreachableEnv exampleConfig exampleServer (\<lambda>x. x) (\<lambda>x. x) (\<lambda>x. x) (\<lambda>x. x)
        chartedState =
       ([ChannelsFetch (channelId exampleServer), Log LError (textChannelNotFound exampleServer)],
        Inr (Inr ()), chartedState)"
proof -
  obtain emb where e: "statusEmbed (validate onlineEnv) exampleConfig exampleServer
      (Online 5 20 ''1.20.4'' ''Welcome'' 42) (now_embed onlineEnv) (now_next onlineEnv) = Inr emb"
    using statusEmbed_accepted [of exampleConfig exampleServer "Online 5 20 ''1.20.4'' ''Welcome'' 42" 0 0]
    by (auto simp: onlineEnv_def)
  have f: "fetchOrNull (fetched onlineEnv) = Some (Channel ''1001'')"
    by (simp add: onlineEnv_def fetchOrNull_def)
  have st: "snd (checkServerStatus (ip exampleServer) (port exampleServer) (queried onlineEnv)) =
          Inr (Online 5 20 ''1.20.4'' ''Welcome'' 42)"
    by (simp add: onlineEnv_def probe_resolved exampleResponse_def)
  have u: "fetchOrNull (fetched unreachableEnv) = None"
    by (simp add: unreachableEnv_def onlineEnv_def fetchOrNull_def)
  note T = C7_tick_order [where env = onlineEnv and config = exampleConfig and sc = exampleServer
      and ?others1.0 = "\<lambda>x. x" and ?others2.0 = "\<lambda>x. x" and ?others3.0 = "\<lambda>x. x"
      and ?others4.0 = "\<lambda>x. x" and s = chartedState and chan = "Channel ''1001''"
      and status = "Online 5 20 ''1.20.4'' ''Welcome'' 42" and emb = emb]
  note U = C7_tick_order [where env = unreachableEnv and config = exampleConfig
      and sc = exampleServer
      and ?others1.0 = "\<lambda>x. x" and ?others2.0 = "\<lambda>x. x" and ?others3.0 = "\<lambda>x. x"
      and ?others4.0 = "\<lambda>x. x" and s = chartedState]
  have exact: "steps (fst (tickAmong onlineEnv exampleConfig exampleServer
       (\<lambda>x. x) (\<lambda>x. x) (\<lambda>x. x) (\<lambda>x. x) chartedState)) =
     [ChannelsFetch ''1001'', UtilStatus ''mc.example.org'' 25565,
      CallInitializePlayerHistory ''1001'', CallUpdatePlayerHistory ''1001'' 5 (Some 24),
      NewEmbedBuilder, CallGeneratePlayerChart ''1001'' (Some ''#3498db''),
      ChartToBuffer (chartRequest
        [\<lparr>timestamp = 0, count = 5\<rparr>, \<lparr>timestamp = 3600000, count = 5\<rparr>] ''#3498db''),
      MessageEdit (Message ''m0'')
        \<lparr>embeds = [snd (snd (attachChart (validate onlineEnv)
             (snd (callChart (toBuffer onlineEnv) exampleServer
                (playerHistory (snd (recordIfOnline onlineEnv exampleServer
                   (Online 5 20 ''1.20.4'' ''Welcome'' 42) chartedState))))) emb))],
         files = fst (snd (attachChart (validate onlineEnv)
             (snd (callChart (toBuffer onlineEnv) exampleServer
                (playerHistory (snd (recordIfOnline onlineEnv exampleServer
                   (Online 5 20 ''1.20.4'' ''Welcome'' 42) chartedState))))) emb))\<rparr>]"
    unfolding T [THEN conjunct2, THEN conjunct2, THEN conjunct2, THEN conjunct2, THEN mp,
        OF conjI [OF f conjI [OF st e]]]
    by (simp add: Let_def chartWanted_def record_handles)
       (simp add: exampleServer_def chartedState_def twoSamples_def recordIfOnline_def
          portOrDefault_def snapshot_def colorOrDefault_def initializePlayerHistory_def
          updatePlayerHistory_def maxHistoryOrDefault_def Let_def onlineEnv_def)
  have unres: "tickAmong unreachableEnv exampleConfig exampleServer (\<lambda>x. x) (\<lambda>x. x) (\<lambda>x. x) (\<lambda>x. x)
        chartedState =
       ([ChannelsFetch (channelId exampleServer), Log LError (textChannelNotFound exampleServer)],
        Inr (Inr ()), chartedState)"
    using U [THEN conjunct2, THEN conjunct2, THEN conjunct1] u by blast
  show ?thesis unfolding exact using unres by simp
qed

section \<open>The stored message handles\<close>












section \<open>Properties of the status command\<close>





lemma command_ignored:
  "\<not> isCommand request \<or> commandName request \<noteq> ''status'' \<Longrightarrow>
   onInteractionCreate env config request s = (([], Inr ()), s)"
  by (auto simp: onInteractionCreate_def)

lemma command_not_found:
  assumes "isCommand request" and "commandName request = ''status''"
    and "findServer (cmd_lowerOther env) (servers config) (serverOption request) = Inr None"
  shows "onInteractionCreate env config request s =
           (([InteractionReply (notFoundReply (serverOption request))], replied env), s)"
  using assms by (simp add: onInteractionCreate_def)

lemma command_raises:
  assumes "isCommand request" and "commandName request = ''status''"
    and "findServer (cmd_lowerOther env) (servers config) (serverOption request) = Inl err"
  shows "onInteractionCreate env config request s = (([], Inl err), s)"
  using assms by (simp add: onInteractionCreate_def)

lemma command_found:
  assumes "isCommand request" and "commandName request = ''status''"
    and "findServer (cmd_lowerOther env) (servers config) (serverOption request) = Inr (Some server)"
    and "snd (checkServerStatus (ip server) (port server) (cmd_queried env)) = Inr status"
  shows "onInteractionCreate env config request s =
     (case commandEmbed (cmd_validate env) config server status
             (cmd_now_embed env) (cmd_now_next env) of
        Inl err \<Rightarrow>
          ((fst (checkServerStatus (ip server) (port server) (cmd_queried env)) @
              [NewEmbedBuilder], Inl err), s)
      | Inr emb \<Rightarrow>
          (case snd (commandImage env server status (playerHistory s) emb) of
             Inl err \<Rightarrow>
               ((fst (checkServerStatus (ip server) (port server) (cmd_queried env)) @
                   [NewEmbedBuilder] @
                   fst (commandImage env server status (playerHistory s) emb), Inl err), s)
           | Inr made \<Rightarrow>
               ((fst (checkServerStatus (ip server) (port server) (cmd_queried env)) @
                   [NewEmbedBuilder] @
                   fst (commandImage env server status (playerHistory s) emb) @
                   [InteractionReply
                      \<lparr>reply_content = None, reply_embeds = [snd made],
                       reply_files = fst made, ephemeral = True\<rparr>],
                 replied env), s)))"
proof -
  obtain evs where "checkServerStatus (ip server) (port server) (cmd_queried env) = (evs, Inr status)"
    using assms(4) by (cases "checkServerStatus (ip server) (port server) (cmd_queried env)") auto
  then show ?thesis
    using assms(1-3)
    by (simp add: onInteractionCreate_def split_beta split: sum.splits prod.splits)
qed

lemma commandImage_steps:
  "steps (fst (commandImage env server status h emb)) =
     (if chartWanted server status
      then CallGeneratePlayerChart (channelId server) (chart_color (chart (display server))) #
        (if length (snapshot h (channelId server)) < 2 then []
         else [ChartToBuffer (chartRequest (snapshot h (channelId server))
                 (colorOrDefault (chart_color (chart (display server)))))])
      else [])"
  by (simp add: commandImage_def split_beta steps_append callChart_steps attachChart_steps
        steps_Nil split: sum.splits)

text \<open>The calls of the handler when a target is found, in each of its three endings.\<close>

lemma command_steps:
  assumes "isCommand request" and "commandName request = ''status''"
    and "findServer (cmd_lowerOther env) (servers config) (serverOption request) = Inr (Some server)"
    and "snd (checkServerStatus (ip server) (port server) (cmd_queried env)) = Inr status"
  shows "steps (fst (fst (onInteractionCreate env config request s))) =
     (case commandEmbed (cmd_validate env) config server status
             (cmd_now_embed env) (cmd_now_next env) of
        Inl err \<Rightarrow> [UtilStatus (ip server) (portOrDefault (port server)), NewEmbedBuilder]
      | Inr emb \<Rightarrow>
          [UtilStatus (ip server) (portOrDefault (port server)), NewEmbedBuilder] @
          steps (fst (commandImage env server status (playerHistory s) emb)) @
          (case snd (commandImage env server status (playerHistory s) emb) of
             Inl err \<Rightarrow> []
           | Inr made \<Rightarrow>
               [InteractionReply
                  \<lparr>reply_content = None, reply_embeds = [snd made],
                   reply_files = fst made, ephemeral = True\<rparr>]))"
  unfolding command_found [OF assms]
  by (simp add: steps_append steps_Cons steps_Nil probe_steps split: sum.splits)

lemma command_state: "snd (onInteractionCreate env config request s) = s"
proof (cases "isCommand request \<and> commandName request = ''status''")
  case False
  then show ?thesis by (auto simp: command_ignored)
next
  case True
  show ?thesis
  proof (cases "findServer (cmd_lowerOther env) (servers config) (serverOption request)")
    case (Inl err)
    with True show ?thesis by (simp add: command_raises)
  next
    case (Inr found)
    show ?thesis
    proof (cases found)
      case None
      with True Inr show ?thesis by (simp add: command_not_found)
    next
      case (Some server)
      obtain status where
        "snd (checkServerStatus (ip server) (port server) (cmd_queried env)) = Inr status"
        using probe_total by blast
      with True Inr Some show ?thesis by (simp add: command_found split: sum.splits)
    qed
  qed
qed

lemma command_handles:
  "fst (onInteractionCreate env config request (s\<lparr>statusMessages := handles\<rparr>)) =
   fst (onInteractionCreate env config request s)"
  by (simp add: onInteractionCreate_def split_beta split: sum.splits option.splits prod.splits)

lemma command_quiet:
  "filter isHistoryWrite (fst (fst (onInteractionCreate env config request s))) = []
   \<and> filter isEdit (fst (fst (onInteractionCreate env config request s))) = []
   \<and> filter isSend (fst (fst (onInteractionCreate env config request s))) = []"
proof (cases "isCommand request \<and> commandName request = ''status''")
  case False
  then show ?thesis by (auto simp: command_ignored)
next
  case True
  show ?thesis
  proof (cases "findServer (cmd_lowerOther env) (servers config) (serverOption request)")
    case (Inl err)
    with True show ?thesis by (simp add: command_raises)
  next
    case (Inr found)
    show ?thesis
    proof (cases found)
      case None
      with True Inr show ?thesis by (simp add: command_not_found)
    next
      case (Some server)
      obtain probed where
        probed: "snd (checkServerStatus (ip server) (port server) (cmd_queried env)) = Inr probed"
        using probe_total by blast
      have found: "findServer (cmd_lowerOther env) (servers config) (serverOption request) =
          Inr (Some server)"
        using Inr Some by simp
      note S = command_steps [OF conjunct1 [OF True] conjunct2 [OF True] found probed, of s]
      have "filter isHistoryWrite (steps (fst (fst (onInteractionCreate env config request s)))) = []"
        unfolding S by (simp add: commandImage_steps split: sum.splits)
      moreover
      have "filter isEdit (steps (fst (fst (onInteractionCreate env config request s)))) = []"
        unfolding S by (simp add: commandImage_steps split: sum.splits)
      moreover
      have "filter isSend (steps (fst (fst (onInteractionCreate env config request s)))) = []"
        unfolding S by (simp add: commandImage_steps split: sum.splits)
      ultimately show ?thesis
        using historyWrite_steps [of "fst (fst (onInteractionCreate env config request s))"]
          edit_steps [of "fst (fst (onInteractionCreate env config request s))"]
          send_steps [of "fst (fst (onInteractionCreate env config request s))"]
        by simp
    qed
  qed
qed

lemma command_render:
  assumes "isCommand request" and "commandName request = ''status''"
    and "findServer (cmd_lowerOther env) (servers config) (serverOption request) = Inr (Some server)"
    and "snd (checkServerStatus (ip server) (port server) (cmd_queried env)) = Inr status"
  shows "filter isRender (fst (fst (onInteractionCreate env config request s))) =
     (case commandEmbed (cmd_validate env) config server status
             (cmd_now_embed env) (cmd_now_next env) of
        Inl err \<Rightarrow> []
      | Inr emb \<Rightarrow>
         (if chartWanted server status
          then CallGeneratePlayerChart (channelId server) (chart_color (chart (display server))) #
            (if length (snapshot (playerHistory s) (channelId server)) < 2 then []
             else [ChartToBuffer (chartRequest (snapshot (playerHistory s) (channelId server))
                     (colorOrDefault (chart_color (chart (display server)))))])
          else []))"
proof -
  have "filter isRender (steps (fst (fst (onInteractionCreate env config request s)))) =
     (case commandEmbed (cmd_validate env) config server status
             (cmd_now_embed env) (cmd_now_next env) of
        Inl err \<Rightarrow> []
      | Inr emb \<Rightarrow>
         (if chartWanted server status
          then CallGeneratePlayerChart (channelId server) (chart_color (chart (display server))) #
            (if length (snapshot (playerHistory s) (channelId server)) < 2 then []
             else [ChartToBuffer (chartRequest (snapshot (playerHistory s) (channelId server))
                     (colorOrDefault (chart_color (chart (display server)))))])
          else []))"
    unfolding command_steps [OF assms]
    by (simp add: commandImage_steps split: sum.splits)
  then show ?thesis
    using render_steps [of "fst (fst (onInteractionCreate env config request s))"] by simp
qed

lemma command_replies:
  assumes "isCommand request" and "commandName request = ''status''"
    and "findServer (cmd_lowerOther env) (servers config) (serverOption request) = Inr (Some server)"
    and "snd (checkServerStatus (ip server) (port server) (cmd_queried env)) = Inr status"
    and "commandEmbed (cmd_validate env) config server status
           (cmd_now_embed env) (cmd_now_next env) = Inr emb"
    and "snd (commandImage env server status (playerHistory s) emb) = Inr (fs, emb')"
  shows "filter isReply (fst (fst (onInteractionCreate env config request s))) =
           [InteractionReply \<lparr>reply_content = None, reply_embeds = [emb'],
                              reply_files = fs, ephemeral = True\<rparr>]"
    and "last (fst (fst (onInteractionCreate env config request s))) =
           InteractionReply \<lparr>reply_content = None, reply_embeds = [emb'],
                             reply_files = fs, ephemeral = True\<rparr>"
    and "snd (fst (onInteractionCreate env config request s)) = replied env"
proof -
  have "filter isReply (steps (fst (fst (onInteractionCreate env config request s)))) =
           [InteractionReply \<lparr>reply_content = None, reply_embeds = [emb'],
                              reply_files = fs, ephemeral = True\<rparr>]"
    unfolding command_steps [OF assms(1-4)]
    using assms(5,6) by (simp add: commandImage_steps)
  then show "filter isReply (fst (fst (onInteractionCreate env config request s))) =
           [InteractionReply \<lparr>reply_content = None, reply_embeds = [emb'],
                              reply_files = fs, ephemeral = True\<rparr>]"
    using reply_steps [of "fst (fst (onInteractionCreate env config request s))"] by simp
  show "last (fst (fst (onInteractionCreate env config request s))) =
           InteractionReply \<lparr>reply_content = None, reply_embeds = [emb'],
                             reply_files = fs, ephemeral = True\<rparr>"
    unfolding command_found [OF assms(1-4)] using assms(5,6) by simp
  show "snd (fst (onInteractionCreate env config request s)) = replied env"
    unfolding command_found [OF assms(1-4)] using assms(5,6) by simp
qed

text \<open>When the embed or the banner image is refused, the handler throws before it replies.\<close>

lemma command_rejects:
  assumes "isCommand request" and "commandName request = ''status''"
    and "findServer (cmd_lowerOther env) (servers config) (serverOption request) = Inr (Some server)"
    and "snd (checkServerStatus (ip server) (port server) (cmd_queried env)) = Inr status"
  shows "commandEmbed (cmd_validate env) config server status
           (cmd_now_embed env) (cmd_now_next env) = Inl err \<Longrightarrow>
         snd (fst (onInteractionCreate env config request s)) = Inl err \<and>
         filter isReply (fst (fst (onInteractionCreate env config request s))) = []"
    and "commandEmbed (cmd_validate env) config server status
           (cmd_now_embed env) (cmd_now_next env) = Inr emb \<Longrightarrow>
         snd (commandImage env server status (playerHistory s) emb) = Inl err \<Longrightarrow>
         snd (fst (onInteractionCreate env config request s)) = Inl err \<and>
         filter isReply (fst (fst (onInteractionCreate env config request s))) = []"
proof -
  assume rejected: "commandEmbed (cmd_validate env) config server status
           (cmd_now_embed env) (cmd_now_next env) = Inl err"
  have "filter isReply (steps (fst (fst (onInteractionCreate env config request s)))) = []"
    unfolding command_steps [OF assms(1-4)] using rejected by simp
  then have "filter isReply (fst (fst (onInteractionCreate env config request s))) = []"
    using reply_steps [of "fst (fst (onInteractionCreate env config request s))"] by simp
  moreover have "snd (fst (onInteractionCreate env config request s)) = Inl err"
    unfolding command_found [OF assms(1-4)] using rejected by simp
  ultimately show "snd (fst (onInteractionCreate env config request s)) = Inl err \<and>
         filter isReply (fst (fst (onInteractionCreate env config request s))) = []"
    by simp
next
  assume built: "commandEmbed (cmd_validate env) config server status
           (cmd_now_embed env) (cmd_now_next env) = Inr emb"
    and rejected: "snd (commandImage env server status (playerHistory s) emb) = Inl err"
  have "filter isReply (steps (fst (fst (onInteractionCreate env config request s)))) = []"
    unfolding command_steps [OF assms(1-4)] using built rejected
    by (simp add: commandImage_steps)
  then have "filter isReply (fst (fst (onInteractionCreate env config request s))) = []"
    using reply_steps [of "fst (fst (onInteractionCreate env config request s))"] by simp
  moreover have "snd (fst (onInteractionCreate env config request s)) = Inl err"
    unfolding command_found [OF assms(1-4)] using built rejected by simp
  ultimately show "snd (fst (onInteractionCreate env config request s)) = Inl err \<and>
         filter isReply (fst (fst (onInteractionCreate env config request s))) = []"
    by simp
qed

text \<open>
  Claim C8 (the status command is read-only). An interaction leaves the whole state as it
  was: the history of every channel id and every stored message handle. It calls neither
  history writer, edits no message and sends none, and what it does is the same whatever
  \<^verbatim>\<open>statusMessages\<close> holds. When a target is found, the chart calls are made exactly when
  the embed has been built and the chart is wanted, on the request built from the series
  the history holds for the target's channel id at that moment. When the embed and the
  image are built, the calls end with exactly one \<^verbatim>\<open>interaction.reply\<close>, ephemeral, that
  carries the embed and the files; when the embed or the banner image is refused, the
  handler throws what was thrown and replies nothing.
\<close>

theorem C8_command_frame:
  "snd (onInteractionCreate env config request s) = s
   \<and> filter isHistoryWrite (fst (fst (onInteractionCreate env config request s))) = []
   \<and> filter isEdit (fst (fst (onInteractionCreate env config request s))) = []
   \<and> filter isSend (fst (fst (onInteractionCreate env config request s))) = []
   \<and> fst (onInteractionCreate env config request (s\<lparr>statusMessages := handles\<rparr>)) =
       fst (onInteractionCreate env config request s)
   \<and> (isCommand request \<and> commandName request = ''status'' \<and>
       findServer (cmd_lowerOther env) (servers config) (serverOption request) =
         Inr (Some server) \<and>
       snd (checkServerStatus (ip server) (port server) (cmd_queried env)) = Inr status \<longrightarrow>
       filter isRender (fst (fst (onInteractionCreate env config request s))) =
         (case commandEmbed (cmd_validate env) config server status
                 (cmd_now_embed env) (cmd_now_next env) of
            Inl thrown \<Rightarrow> []
          | Inr built \<Rightarrow>
             (if display_type (display server) = ''chart'' \<and>
                 chart_enabled (chart (display server)) \<and> online status
              then CallGeneratePlayerChart (channelId server)
                     (chart_color (chart (display server))) #
                (if length (snapshot (playerHistory s) (channelId server)) < 2 then []
                 else [ChartToBuffer
                         (chartRequest (snapshot (playerHistory s) (channelId server))
                            (colorOrDefault (chart_color (chart (display server)))))])
              else []))
       \<and> (commandEmbed (cmd_validate env) config server status
             (cmd_now_embed env) (cmd_now_next env) = Inr emb \<and>
          snd (commandImage env server status (playerHistory s) emb) = Inr (fs, emb') \<longrightarrow>
            filter isReply (fst (fst (onInteractionCreate env config request s))) =
              [InteractionReply \<lparr>reply_content = None, reply_embeds = [emb'],
                                 reply_files = fs, ephemeral = True\<rparr>] \<and>
            last (fst (fst (onInteractionCreate env config request s))) =
              InteractionReply \<lparr>reply_content = None, reply_embeds = [emb'],
                                reply_files = fs, ephemeral = True\<rparr> \<and>
            snd (fst (onInteractionCreate env config request s)) = replied env)
       \<and> (commandEmbed (cmd_validate env) config server status
             (cmd_now_embed env) (cmd_now_next env) = Inl err \<longrightarrow>
            snd (fst (onInteractionCreate env config request s)) = Inl err \<and>
            filter isReply (fst (fst (onInteractionCreate env config request s))) = [])
       \<and> (commandEmbed (cmd_validate env) config server status
             (cmd_now_embed env) (cmd_now_next env) = Inr emb \<and>
          snd (commandImage env server status (playerHistory s) emb) = Inl err \<longrightarrow>
            snd (fst (onInteractionCreate env config request s)) = Inl err \<and>
            filter isReply (fst (fst (onInteractionCreate env config request s))) = []))"
proof (intro conjI impI)
  show "snd (onInteractionCreate env config request s) = s" by (rule command_state)
  show "filter isHistoryWrite (fst (fst (onInteractionCreate env config request s))) = []"
    using command_quiet [of env config request s] by simp
  show "filter isEdit (fst (fst (onInteractionCreate env config request s))) = []"
    using command_quiet [of env config request s] by simp
  show "filter isSend (fst (fst (onInteractionCreate env config request s))) = []"
    using command_quiet [of env config request s] by simp
  show "fst (onInteractionCreate env config request (s\<lparr>statusMessages := handles\<rparr>)) =
       fst (onInteractionCreate env config request s)" by (rule command_handles)
next
  assume found: "isCommand request \<and> commandName request = ''status'' \<and>
       findServer (cmd_lowerOther env) (servers config) (serverOption request) =
         Inr (Some server) \<and>
       snd (checkServerStatus (ip server) (port server) (cmd_queried env)) = Inr status"
  note a = found [THEN conjunct1] found [THEN conjunct2, THEN conjunct1]
    found [THEN conjunct2, THEN conjunct2, THEN conjunct1]
    found [THEN conjunct2, THEN conjunct2, THEN conjunct2]
  show "filter isRender (fst (fst (onInteractionCreate env config request s))) =
         (case commandEmbed (cmd_validate env) config server status
                 (cmd_now_embed env) (cmd_now_next env) of
            Inl thrown \<Rightarrow> []
          | Inr built \<Rightarrow>
             (if display_type (display server) = ''chart'' \<and>
                 chart_enabled (chart (display server)) \<and> online status
              then CallGeneratePlayerChart (channelId server)
                     (chart_color (chart (display server))) #
                (if length (snapshot (playerHistory s) (channelId server)) < 2 then []
                 else [ChartToBuffer
                         (chartRequest (snapshot (playerHistory s) (channelId server))
                            (colorOrDefault (chart_color (chart (display server)))))])
              else []))"
    unfolding command_render [OF a] by (auto simp: chartWanted_def split: sum.splits)
  {
    assume built: "commandEmbed (cmd_validate env) config server status
             (cmd_now_embed env) (cmd_now_next env) = Inr emb \<and>
          snd (commandImage env server status (playerHistory s) emb) = Inr (fs, emb')"
    note r = command_replies [OF a built [THEN conjunct1] built [THEN conjunct2]]
    show "filter isReply (fst (fst (onInteractionCreate env config request s))) =
              [InteractionReply \<lparr>reply_content = None, reply_embeds = [emb'],
                                 reply_files = fs, ephemeral = True\<rparr>]" by (rule r(1))
    show "last (fst (fst (onInteractionCreate env config request s))) =
              InteractionReply \<lparr>reply_content = None, reply_embeds = [emb'],
                                reply_files = fs, ephemeral = True\<rparr>" by (rule r(2))
    show "snd (fst (onInteractionCreate env config request s)) = replied env" by (rule r(3))
  }
  {
    assume rejected: "commandEmbed (cmd_validate env) config server status
             (cmd_now_embed env) (cmd_now_next env) = Inl err"
    note r = command_rejects(1) [OF a rejected, of s]
    show "snd (fst (onInteractionCreate env config request s)) = Inl err"
      using r by simp
    show "filter isReply (fst (fst (onInteractionCreate env config request s))) = []"
      using r by simp
  }
  {
    assume rejected: "commandEmbed (cmd_validate env) config server status
             (cmd_now_embed env) (cmd_now_next env) = Inr emb \<and>
          snd (commandImage env server status (playerHistory s) emb) = Inl err"
    note r = command_rejects(2) [OF a rejected [THEN conjunct1] rejected [THEN conjunct2]]
    show "snd (fst (onInteractionCreate env config request s)) = Inl err"
      using r by simp
    show "filter isReply (fst (fst (onInteractionCreate env config request s))) = []"
      using r by simp
  }
qed

lemma commandEmbed_accepted: "\<exists>emb. commandEmbed acceptAll config server status a b = Inr emb"
  by (simp add: commandEmbed_def builder_def thenDo_def acceptAll_def)

lemma commandImage_chart:
  "chartWanted server status \<Longrightarrow>
   \<exists>fs emb'. snd (commandImage env server status h emb) = Inr (fs, emb')"
  by (simp add: commandImage_def split_beta)

lemma findServer_exampleServer:
  "findServer lo (servers exampleConfig) (Some ''Lobby'') = Inr (Some exampleServer)"
  by (simp add: exampleConfig_def exampleServer_def)

text \<open>Claim C8 at a status command for the example target, with two samples stored.\<close>

theorem C8_command_frame_witness:
  "snd (onInteractionCreate commandEnv exampleConfig (statusCommand ''Lobby'') chartedState) = chartedState
   \<and> filter isHistoryWrite
        (fst (fst (onInteractionCreate commandEnv exampleConfig (statusCommand ''Lobby'') chartedState))) = []
   \<and> filter isRender
        (fst (fst (onInteractionCreate commandEnv exampleConfig (statusCommand ''Lobby'') chartedState))) =
       [CallGeneratePlayerChart ''1001'' (Some ''#3498db''),
        ChartToBuffer (chartRequest (snapshot twoSamples ''1001'') ''#3498db'')]
   \<and> (\<exists>fs emb'. filter isReply
        (fst (fst (onInteractionCreate commandEnv exampleConfig (statusCommand ''Lobby'') chartedState))) =
       [InteractionReply \<lparr>reply_content = None, reply_embeds = [emb'],
                          reply_files = fs, ephemeral = True\<rparr>])"
proof -
  obtain emb where e: "commandEmbed (cmd_validate commandEnv) exampleConfig exampleServer
      (Online 5 20 ''1.20.4'' ''Welcome'' 42) (cmd_now_embed commandEnv) (cmd_now_next commandEnv) =
      Inr emb"
    using commandEmbed_accepted [of exampleConfig exampleServer
        "Online 5 20 ''1.20.4'' ''Welcome'' 42" 0 0]
    by (auto simp: commandEnv_def)
  have w: "chartWanted exampleServer (Online 5 20 ''1.20.4'' ''Welcome'' 42)"
    by (simp add: chartWanted_def exampleServer_def)
  obtain fs emb' where i: "snd (commandImage commandEnv exampleServer
      (Online 5 20 ''1.20.4'' ''Welcome'' 42) (playerHistory chartedState) emb) = Inr (fs, emb')"
    using commandImage_chart [OF w] by blast
  have c: "isCommand (statusCommand ''Lobby'') \<and> commandName (statusCommand ''Lobby'') = ''status'' \<and>
       findServer (cmd_lowerOther commandEnv) (servers exampleConfig)
         (serverOption (statusCommand ''Lobby'')) = Inr (Some exampleServer) \<and>
       snd (checkServerStatus (ip exampleServer) (port exampleServer) (cmd_queried commandEnv)) =
         Inr (Online 5 20 ''1.20.4'' ''Welcome'' 42)"
    by (simp add: statusCommand_def findServer_exampleServer commandEnv_def probe_resolved
          exampleResponse_def)
  note T = C8_command_frame [where env = commandEnv and config = exampleConfig
      and request = "statusCommand ''Lobby''" and s = chartedState and handles = Map.empty
      and server = exampleServer and status = "Online 5 20 ''1.20.4'' ''Welcome'' 42"
      and emb = emb and fs = fs and emb' = emb']
  note F = T [THEN conjunct2, THEN conjunct2, THEN conjunct2, THEN conjunct2, THEN conjunct2,
      THEN mp, OF c]
  have st: "snd (onInteractionCreate commandEnv exampleConfig (statusCommand ''Lobby'') chartedState) =
      chartedState"
    using T by blast
  have hw: "filter isHistoryWrite
        (fst (fst (onInteractionCreate commandEnv exampleConfig (statusCommand ''Lobby'') chartedState))) = []"
    using T by blast
  have rn: "filter isRender
        (fst (fst (onInteractionCreate commandEnv exampleConfig (statusCommand ''Lobby'') chartedState))) =
       [CallGeneratePlayerChart ''1001'' (Some ''#3498db''),
        ChartToBuffer (chartRequest (snapshot twoSamples ''1001'') ''#3498db'')]"
    unfolding F [THEN conjunct1] e
    by (simp add: exampleServer_def chartedState_def twoSamples_def snapshot_def
          colorOrDefault_def)
  have rp: "filter isReply
        (fst (fst (onInteractionCreate commandEnv exampleConfig (statusCommand ''Lobby'') chartedState))) =
       [InteractionReply \<lparr>reply_content = None, reply_embeds = [emb'],
                          reply_files = fs, ephemeral = True\<rparr>]"
    using F [THEN conjunct2, THEN conjunct1, THEN mp, OF conjI [OF e i]] by blast
  from st hw rn rp show ?thesis by blast
qed






end
